theory Spec2Isabelle
  imports Main
begin

section \<open>Go values: errors, nil pointers and panics\<close>

text \<open>
  The provider's handlers are Go functions of a resource record
  \<open>d *schema.ResourceData\<close> and of the provider configuration \<open>meta\<close>. They
  talk to the cloud through SDK calls that hand back a pointer and an error.

  An error value is modelled by its dynamic type, which is all the handlers look at
  (\<open>err.(golangsdk.ErrDefault404)\<close>, \<open>err.(golangsdk.ErrUnexpectedResponseCode)\<close>
  and its field \<open>Actual\<close>), together with its message. \<open>ErrOther\<close> stands for an
  upstream error of any other type, \<open>ErrorString\<close> for the result of
  \<open>fmt.Errorf\<close>; the last two constructors are the errors of the state-change
  waiter.
\<close>

datatype error =
    ErrDefault404 string
  | ErrUnexpectedResponseCode int string
  | ErrOther string
  | ErrorString string
  | UnexpectedStateError string
  | TimeoutError string

fun Error :: "error \<Rightarrow> string" where
  "Error (ErrDefault404 msg) = msg"
| "Error (ErrUnexpectedResponseCode actual msg) = msg"
| "Error (ErrOther msg) = msg"
| "Error (ErrorString msg) = msg"
| "Error (UnexpectedStateError st) = ''unexpected state '' @ st"
| "Error (TimeoutError expected) = ''timeout while waiting for state to become '' @ expected"

text \<open>\<open>fmt.Errorf(prefix + "%s", err)\<close>: a new error whose message is the prefix
  followed by the message of \<open>err\<close>.\<close>

definition Errorf :: "string \<Rightarrow> error \<Rightarrow> error" where
  "Errorf prefix err = ErrorString (prefix @ Error err)"

text \<open>The type assertion \<open>_, ok := err.(golangsdk.ErrDefault404)\<close>.\<close>

fun is_ErrDefault404 :: "error \<Rightarrow> bool" where
  "is_ErrDefault404 (ErrDefault404 msg) = True"
| "is_ErrDefault404 e = False"

text \<open>The type assertion \<open>errCode, ok := err.(golangsdk.ErrUnexpectedResponseCode)\<close>,
  giving \<open>errCode.Actual\<close> when it holds.\<close>

fun as_ErrUnexpectedResponseCode :: "error \<Rightarrow> int option" where
  "as_ErrUnexpectedResponseCode (ErrUnexpectedResponseCode actual msg) = Some actual"
| "as_ErrUnexpectedResponseCode e = None"

text \<open>
  A Go pointer is an \<open>option\<close> (\<open>None\<close> is \<open>nil\<close>), and an SDK call returns the
  pair \<open>(pointer, error)\<close>. Reading a field through a nil pointer panics; a handler
  that panics returns nothing, so a run ends in \<open>Panic\<close> or in \<open>Return\<close>.
\<close>

datatype 'a exec = Panic | Return 'a

section \<open>The resource record of the plugin framework\<close>

datatype val =
    VInt int
  | VString string
  | VBool bool
  | VMap "(string \<times> string) list"
  | VList "(string \<times> string) list list"

text \<open>
  \<open>attrs\<close> holds the values \<open>d.Get\<close> reads and \<open>d.Set\<close> writes; a key that the
  configuration leaves unset is absent from it. \<open>HasChange\<close> is the framework's report
  of the fields that differ from the stored state. The two timeouts are counted in
  polls of the waiter (see \<open>WaitForState\<close>).
\<close>

record ResourceData =
  d_Id :: string
  attrs :: "string \<Rightarrow> val option"
  HasChange :: "string \<Rightarrow> bool"
  TimeoutCreate :: nat
  TimeoutDelete :: nat

text \<open>\<open>d.Get(key).(T)\<close>: the framework answers with the zero value of the schema's
  type for a key that is not set.\<close>

definition Get_int :: "ResourceData \<Rightarrow> string \<Rightarrow> int" where
  "Get_int d key = (case attrs d key of Some (VInt i) \<Rightarrow> i | _ \<Rightarrow> 0)"

definition Get_string :: "ResourceData \<Rightarrow> string \<Rightarrow> string" where
  "Get_string d key = (case attrs d key of Some (VString s) \<Rightarrow> s | _ \<Rightarrow> [])"

definition Get_bool :: "ResourceData \<Rightarrow> string \<Rightarrow> bool" where
  "Get_bool d key = (case attrs d key of Some (VBool b) \<Rightarrow> b | _ \<Rightarrow> False)"

definition Get_map :: "ResourceData \<Rightarrow> string \<Rightarrow> (string \<times> string) list" where
  "Get_map d key = (case attrs d key of Some (VMap m) \<Rightarrow> m | _ \<Rightarrow> [])"

fun is_zero :: "val \<Rightarrow> bool" where
  "is_zero (VInt i) = (i = 0)"
| "is_zero (VString s) = (s = [])"
| "is_zero (VBool b) = (\<not> b)"
| "is_zero (VMap m) = (m = [])"
| "is_zero (VList l) = (l = [])"

text \<open>\<open>v, ok := d.GetOk(key)\<close>: \<open>ok\<close> holds when the key is set to a value that is
  not the zero value.\<close>

definition GetOk :: "ResourceData \<Rightarrow> string \<Rightarrow> val option" where
  "GetOk d key = (case attrs d key of None \<Rightarrow> None | Some v \<Rightarrow> if is_zero v then None else Some v)"

definition SetId :: "string \<Rightarrow> ResourceData \<Rightarrow> ResourceData" where
  "SetId s d = d\<lparr>d_Id := s\<rparr>"

text \<open>\<open>d.Set(key, value)\<close> returns an error only for a value whose Go type does not
  fit the key's schema type; every call in these files passes a value of the schema's
  type, so the value is stored and the error is nil.\<close>

definition d_Set :: "string \<Rightarrow> val \<Rightarrow> ResourceData \<Rightarrow> error option \<times> ResourceData" where
  "d_Set key v d = (None, d\<lparr>attrs := (attrs d)(key \<mapsto> v)\<rparr>)"

text \<open>A run of \<open>d.Set\<close> statements whose errors the source drops.\<close>

definition Sets :: "(string \<times> val) list \<Rightarrow> ResourceData \<Rightarrow> ResourceData" where
  "Sets kvs d = foldl (\<lambda>d' (key, v). snd (d_Set key v d')) d kvs"

subsection \<open>Schemas\<close>

datatype ValueType = TypeInt | TypeString | TypeBool | TypeMap | TypeList

record Schema =
  Type :: ValueType
  Required :: bool
  Optional :: bool
  Computed :: bool
  ForceNew :: bool

definition field :: "ValueType \<Rightarrow> Schema" where
  "field t = \<lparr>Type = t, Required = False, Optional = False, Computed = False, ForceNew = False\<rparr>"

definition dataSourceDmsMaintainWindowV1_Schema :: "(string \<times> Schema) list" where
  "dataSourceDmsMaintainWindowV1_Schema =
    [(''seq'', (field TypeInt)\<lparr>Optional := True, Computed := True\<rparr>),
     (''begin'', (field TypeString)\<lparr>Optional := True, Computed := True\<rparr>),
     (''end'', (field TypeString)\<lparr>Optional := True, Computed := True\<rparr>),
     (''default'', (field TypeBool)\<lparr>Optional := True, Computed := True\<rparr>)]"

definition resourceCCEClusterV3_Schema :: "(string \<times> Schema) list" where
  "resourceCCEClusterV3_Schema =
    [(''region'', (field TypeString)\<lparr>Optional := True, Computed := True, ForceNew := True\<rparr>),
     (''name'', (field TypeString)\<lparr>Required := True, ForceNew := True\<rparr>),
     (''labels'', (field TypeMap)\<lparr>Optional := True, ForceNew := True\<rparr>),
     (''annotations'', (field TypeMap)\<lparr>Optional := True, ForceNew := True\<rparr>),
     (''flavor_id'', (field TypeString)\<lparr>Required := True, ForceNew := True\<rparr>),
     (''cluster_version'', (field TypeString)\<lparr>Optional := True, Computed := True, ForceNew := True\<rparr>),
     (''cluster_type'', (field TypeString)\<lparr>Required := True, ForceNew := True\<rparr>),
     (''description'', (field TypeString)\<lparr>Optional := True, Computed := True\<rparr>),
     (''billing_mode'', (field TypeInt)\<lparr>Optional := True, Computed := True, ForceNew := True\<rparr>),
     (''vpc_id'', (field TypeString)\<lparr>Required := True, ForceNew := True\<rparr>),
     (''subnet_id'', (field TypeString)\<lparr>Required := True, ForceNew := True\<rparr>),
     (''highway_subnet_id'', (field TypeString)\<lparr>Optional := True, Computed := True, ForceNew := True\<rparr>),
     (''extend_param'', (field TypeMap)\<lparr>Optional := True, ForceNew := True\<rparr>),
     (''container_network_type'', (field TypeString)\<lparr>Required := True, ForceNew := True\<rparr>),
     (''container_network_cidr'', (field TypeString)\<lparr>Optional := True, Computed := True, ForceNew := True\<rparr>),
     (''authentication_mode'', (field TypeString)\<lparr>Optional := True, ForceNew := True\<rparr>),
     (''authenticating_proxy_ca'', (field TypeString)\<lparr>Optional := True, ForceNew := True\<rparr>),
     (''multi_az'', (field TypeBool)\<lparr>Optional := True, ForceNew := True\<rparr>),
     (''eip'', (field TypeString)\<lparr>Optional := True, ForceNew := True\<rparr>),
     (''kube_proxy_mode'', (field TypeString)\<lparr>Optional := True, ForceNew := True\<rparr>),
     (''status'', (field TypeString)\<lparr>Computed := True\<rparr>),
     (''certificate_clusters'', (field TypeList)\<lparr>Computed := True\<rparr>),
     (''certificate_users'', (field TypeList)\<lparr>Computed := True\<rparr>)]"

text \<open>The schema of \<open>tags\<close> comes from the helper \<open>tagsSchema()\<close>, which these
  files do not hold: it is a parameter.\<close>

definition resourceVirtualPrivateCloudV1_Schema :: "Schema \<Rightarrow> (string \<times> Schema) list" where
  "resourceVirtualPrivateCloudV1_Schema tagsSchema =
    [(''region'', (field TypeString)\<lparr>Optional := True, ForceNew := True, Computed := True\<rparr>),
     (''name'', (field TypeString)\<lparr>Required := True, ForceNew := False\<rparr>),
     (''cidr'', (field TypeString)\<lparr>Required := True, ForceNew := False\<rparr>),
     (''status'', (field TypeString)\<lparr>Computed := True\<rparr>),
     (''shared'', (field TypeBool)\<lparr>Computed := True\<rparr>),
     (''routes'', (field TypeList)\<lparr>Computed := True\<rparr>),
     (''tags'', tagsSchema)]"

section \<open>The objects of the cloud API\<close>

record MaintainWindow =
  mw_ID :: int
  mw_Begin :: string
  mw_End :: string
  mw_Default :: bool

record GetResponse =
  MaintainWindows :: "MaintainWindow list"

record HostNetworkSpec =
  VpcId :: string
  SubnetId :: string
  HighwaySubnet :: string

record ContainerNetworkSpec =
  cn_Mode :: string
  Cidr :: string

record AuthenticationSpec =
  au_Mode :: string
  AuthenticatingProxy :: "(string \<times> string) list"

record Spec =
  sp_Type :: string
  Flavor :: string
  Version :: string
  sp_Description :: string
  HostNetwork :: HostNetworkSpec
  ContainerNetwork :: ContainerNetworkSpec
  Authentication :: AuthenticationSpec
  BillingMode :: int
  ExtendParam :: "(string \<times> string) list"

record CreateMetaData =
  cm_Name :: string
  Labels :: "(string \<times> string) list"
  Annotations :: "(string \<times> string) list"

record CreateOpts =
  Kind :: string
  ApiVersion :: string
  co_Metadata :: CreateMetaData
  co_Spec :: Spec

record MetaData =
  md_Id :: string
  md_Name :: string

record Status =
  Phase :: string

record Clusters =
  Metadata :: MetaData
  cl_Spec :: Spec
  cl_Status :: Status

record UpdateSpec =
  us_Description :: string

record UpdateOpts =
  uo_Spec :: UpdateSpec

record CertCluster =
  Server :: string
  CertAuthorityData :: string

record CertClusters =
  cc_Name :: string
  Cluster :: CertCluster

record CertUser =
  ClientCertData :: string
  ClientKeyData :: string

record CertUsers =
  cu_Name :: string
  User :: CertUser

record Certificate =
  ce_Clusters :: "CertClusters list"
  ce_Users :: "CertUsers list"

record Route =
  DestinationCIDR :: string
  NextHop :: string

record Vpc =
  vpc_ID :: string
  vpc_Name :: string
  vpc_CIDR :: string
  vpc_Status :: string
  EnableSharedSnat :: bool
  Routes :: "Route list"

record VpcCreateOpts =
  vco_Name :: string
  vco_CIDR :: string

record VpcUpdateOpts =
  vuo_Name :: string
  vuo_CIDR :: string

record ResourceTag =
  Key :: string
  Value :: string

record ResourceTags =
  Tags :: "ResourceTag list"

section \<open>The provider configuration and the cloud behind it\<close>

text \<open>Every request a handler sends upstream is recorded, in order, with its
  payload: the construction of a service client for a region, and the SDK calls.\<close>

datatype call =
    DmsV1Client string
  | CceV3Client string
  | NetworkingV1Client string
  | NetworkingV2Client string
  | MaintainWindowsGet
  | ClustersCreate CreateOpts
  | ClustersGet string
  | ClustersGetCert string
  | ClustersUpdate string UpdateOpts
  | ClustersDelete string
  | VpcsCreate VpcCreateOpts
  | VpcsGet string
  | VpcsUpdate string VpcUpdateOpts
  | VpcsDelete string
  | TagsCreate string string "ResourceTag list"
  | TagsGet string string
  | TagsUpdate ResourceData string

text \<open>
  \<open>meta\<close> is the provider's \<open>*Config\<close>. Its first fields are helpers of the provider
  that live in other files and are taken as parameters: \<open>GetRegion\<close>,
  \<open>hasFilledOpt\<close>, \<open>expandResourceTags\<close>, \<open>tagsToMap\<close>, and the four client
  constructors (\<open>None\<close>: the client was made). The remaining fields are the cloud
  itself: the answer of each SDK call is an arbitrary function of the requests sent so
  far and of the call's arguments, so a cloud may answer the same request differently
  as time goes on. \<open>UpdateResourceTags\<close> is the provider's helper that sends a tag
  update.
\<close>

record Config =
  GetRegion :: "ResourceData \<Rightarrow> string"
  hasFilledOpt :: "ResourceData \<Rightarrow> string \<Rightarrow> bool"
  expandResourceTags :: "(string \<times> string) list \<Rightarrow> ResourceTag list"
  tagsToMap :: "ResourceTag list \<Rightarrow> (string \<times> string) list"
  dmsV1Client :: "string \<Rightarrow> error option"
  cceV3Client :: "string \<Rightarrow> error option"
  networkingV1Client :: "string \<Rightarrow> error option"
  networkingV2Client :: "string \<Rightarrow> error option"
  maintainwindows_Get :: "call list \<Rightarrow> GetResponse option \<times> error option"
  clusters_Create :: "call list \<Rightarrow> CreateOpts \<Rightarrow> Clusters option \<times> error option"
  clusters_Get :: "call list \<Rightarrow> string \<Rightarrow> Clusters option \<times> error option"
  clusters_GetCert :: "call list \<Rightarrow> string \<Rightarrow> Certificate option \<times> error option"
  clusters_Update :: "call list \<Rightarrow> string \<Rightarrow> UpdateOpts \<Rightarrow> Clusters option \<times> error option"
  clusters_Delete :: "call list \<Rightarrow> string \<Rightarrow> error option"
  vpcs_Create :: "call list \<Rightarrow> VpcCreateOpts \<Rightarrow> Vpc option \<times> error option"
  vpcs_Get :: "call list \<Rightarrow> string \<Rightarrow> Vpc option \<times> error option"
  vpcs_Update :: "call list \<Rightarrow> string \<Rightarrow> VpcUpdateOpts \<Rightarrow> Vpc option \<times> error option"
  vpcs_Delete :: "call list \<Rightarrow> string \<Rightarrow> error option"
  tags_Create :: "call list \<Rightarrow> string \<Rightarrow> string \<Rightarrow> ResourceTag list \<Rightarrow> error option"
  tags_Get :: "call list \<Rightarrow> string \<Rightarrow> string \<Rightarrow> ResourceTags option \<times> error option"
  UpdateResourceTags :: "call list \<Rightarrow> ResourceData \<Rightarrow> string \<Rightarrow> error option"

text \<open>What a lifecycle handler hands back: its error (\<open>None\<close> is nil), the resource
  record as it left it, and the requests sent.\<close>

type_synonym outcome = "(error option \<times> ResourceData \<times> call list) exec"

section \<open>The state-change waiter\<close>

text \<open>
  Modelled from the spec: \<open>resource.StateChangeConf.WaitForState\<close> belongs to the
  plugin framework and is not among these files. The spec describes it as the polling
  primitive that, given pending statuses and target statuses, queries the refresh
  function again and again until the observed status is a target (success), a failure
  is observed (fatal) or the overall timeout elapses (fatal). A failure is an error of
  the refresh function, or a status that is neither a target nor pending. Real time is
  not modelled: \<open>Timeout\<close> is the number of polls that fit into the configured
  duration, and the sleeps between polls (\<open>Delay\<close>, \<open>MinTimeout\<close>, in seconds)
  have no effect here. Every refresh function of these files hands the waiter an error
  or a typed pointer, so the framework's separate treatment of a nil result without an
  error never applies.
\<close>

record 'a StateChangeConf =
  Pending :: "string list"
  Target :: "string list"
  Refresh :: "call list \<Rightarrow> (('a option \<times> string \<times> error option) \<times> call list) exec"
  Timeout :: nat
  Delay :: nat
  MinTimeout :: nat

fun poll :: "'a StateChangeConf \<Rightarrow> nat \<Rightarrow> call list \<Rightarrow> (('a option \<times> error option) \<times> call list) exec" where
  "poll conf 0 h = Return ((None, Some (TimeoutError (concat (Target conf)))), h)"
| "poll conf (Suc n) h =
    (case Refresh conf h of
      Panic \<Rightarrow> Panic
    | Return ((res, currentState, err), h') \<Rightarrow>
        (case err of
          Some e \<Rightarrow> Return ((res, Some e), h')
        | None \<Rightarrow>
            if currentState \<in> set (Target conf) then Return ((res, None), h')
            else if currentState \<in> set (Pending conf) then poll conf n h'
            else Return ((res, Some (UnexpectedStateError currentState)), h')))"

definition WaitForState :: "'a StateChangeConf \<Rightarrow> call list \<Rightarrow> (('a option \<times> error option) \<times> call list) exec" where
  "WaitForState conf h = poll conf (Timeout conf) h"

text \<open>The requests on record after \<open>k\<close> polls that each reported a pending status
  without error, when the first \<open>k\<close> polls from \<open>h\<close> all did so.\<close>

fun after_pending :: "'a StateChangeConf \<Rightarrow> nat \<Rightarrow> call list \<Rightarrow> call list option" where
  "after_pending conf 0 h = Some h"
| "after_pending conf (Suc k) h =
    (case Refresh conf h of
      Panic \<Rightarrow> None
    | Return ((res, currentState, err), h') \<Rightarrow>
        if err = None \<and> currentState \<notin> set (Target conf) \<and> currentState \<in> set (Pending conf)
        then after_pending conf k h' else None)"

section \<open>Data source: DMS maintenance windows\<close>

text \<open>\<open>strconv.Itoa\<close>: the decimal numeral of an integer.\<close>

definition digit :: "nat \<Rightarrow> char" where
  "digit n = ''0123456789'' ! n"

function Itoa_nat :: "nat \<Rightarrow> string" where
  "Itoa_nat n = (if n < 10 then [digit n] else Itoa_nat (n div 10) @ [digit (n mod 10)])"
  by pat_completeness auto
termination
  by (relation "measure (\<lambda>n. n)") auto

declare Itoa_nat.simps [simp del]

definition Itoa :: "int \<Rightarrow> string" where
  "Itoa i = (if i < 0 then CHR ''-'' # Itoa_nat (nat (- i)) else Itoa_nat (nat i))"

text \<open>The body of the loop over the fetched windows: the four tests that end in
  \<open>continue\<close>, in the order of the source.\<close>

definition excluded :: "ResourceData \<Rightarrow> MaintainWindow \<Rightarrow> bool" where
  "excluded d mv =
    (if Get_int d ''seq'' \<noteq> 0 \<and> mw_ID mv \<noteq> Get_int d ''seq'' then True
     else if Get_string d ''begin'' \<noteq> [] \<and> mw_Begin mv \<noteq> Get_string d ''begin'' then True
     else if Get_string d ''end'' \<noteq> [] \<and> mw_End mv \<noteq> Get_string d ''end'' then True
     else if mw_Default mv \<noteq> Get_bool d ''default'' then True
     else False)"

fun filter_loop :: "ResourceData \<Rightarrow> MaintainWindow list \<Rightarrow> MaintainWindow list \<Rightarrow> MaintainWindow list" where
  "filter_loop d [] filteredMVs = filteredMVs"
| "filter_loop d (mv # rest) filteredMVs =
    (if excluded d mv then filter_loop d rest filteredMVs
     else filter_loop d rest (filteredMVs @ [mv]))"

definition no_results :: error where
  "no_results = ErrorString ''Your query returned no results. Please change your filters and try again.''"

definition dataSourceDmsMaintainWindowV1Read :: "Config \<Rightarrow> ResourceData \<Rightarrow> call list \<Rightarrow> outcome" where
  "dataSourceDmsMaintainWindowV1Read meta d h0 =
    (let h = h0 @ [DmsV1Client (GetRegion meta d)] in
    (case dmsV1Client meta (GetRegion meta d) of
      Some err \<Rightarrow> Return (Some (Errorf ''Error creating HuaweiCloud dms client: '' err), d, h)
    | None \<Rightarrow>
        (case maintainwindows_Get meta h of (v, err) \<Rightarrow>
          (case err of
            Some e \<Rightarrow> Return (Some e, d, h @ [MaintainWindowsGet])
          | None \<Rightarrow>
              (case v of
                None \<Rightarrow> Panic
              | Some r \<Rightarrow>
                  (let filteredMVs = filter_loop d (MaintainWindows r) [] in
                   if length filteredMVs < 1
                   then Return (Some no_results, d, h @ [MaintainWindowsGet])
                   else
                     (let mw = filteredMVs ! 0 in
                      Return (None,
                        Sets [(''begin'', VString (mw_Begin mw)),
                              (''end'', VString (mw_End mw)),
                              (''default'', VBool (mw_Default mw))]
                          (SetId (Itoa (mw_ID mw)) d),
                        h @ [MaintainWindowsGet]))))))))"

section \<open>Resource: CCE cluster\<close>

text \<open>A Go map with string values is an association list; \<open>m[key] = v\<close> replaces
  the entry of \<open>key\<close> or adds one.\<close>

fun assign :: "string \<Rightarrow> string \<Rightarrow> (string \<times> string) list \<Rightarrow> (string \<times> string) list" where
  "assign key v [] = [(key, v)]"
| "assign key v ((k, w) # m) = (if k = key then (key, v) # m else (k, w) # assign key v m)"

fun as_string :: "val \<Rightarrow> string" where
  "as_string (VString s) = s"
| "as_string v = []"

definition resourceClusterLabelsV3 :: "ResourceData \<Rightarrow> (string \<times> string) list" where
  "resourceClusterLabelsV3 d = foldl (\<lambda>m (key, v). assign key v m) [] (Get_map d ''labels'')"

definition resourceClusterAnnotationsV3 :: "ResourceData \<Rightarrow> (string \<times> string) list" where
  "resourceClusterAnnotationsV3 d = foldl (\<lambda>m (key, v). assign key v m) [] (Get_map d ''annotations'')"

definition resourceClusterExtendParamV3 :: "ResourceData \<Rightarrow> (string \<times> string) list" where
  "resourceClusterExtendParamV3 d =
    (let m0 = foldl (\<lambda>m (key, v). assign key v m) [] (Get_map d ''extend_param'');
         m1 = (case GetOk d ''multi_az'' of
                 Some multi_az \<Rightarrow> if multi_az = VBool True then assign ''clusterAZ'' ''multi_az'' m0 else m0
               | None \<Rightarrow> m0);
         m2 = (case GetOk d ''kube_proxy_mode'' of
                 Some kube_proxy_mode \<Rightarrow> assign ''kubeProxyMode'' (as_string kube_proxy_mode) m1
               | None \<Rightarrow> m1)
     in (case GetOk d ''eip'' of
           Some eip \<Rightarrow> assign ''clusterExternalIP'' (as_string eip) m2
         | None \<Rightarrow> m2))"

definition cce_createOpts :: "Config \<Rightarrow> ResourceData \<Rightarrow> CreateOpts" where
  "cce_createOpts meta d =
    \<lparr>Kind = ''Cluster'',
     ApiVersion = ''v3'',
     co_Metadata = \<lparr>cm_Name = Get_string d ''name'',
       Labels = resourceClusterLabelsV3 d,
       Annotations = resourceClusterAnnotationsV3 d\<rparr>,
     co_Spec = \<lparr>sp_Type = Get_string d ''cluster_type'',
       Flavor = Get_string d ''flavor_id'',
       Version = Get_string d ''cluster_version'',
       sp_Description = Get_string d ''description'',
       HostNetwork = \<lparr>VpcId = Get_string d ''vpc_id'',
         SubnetId = Get_string d ''subnet_id'',
         HighwaySubnet = Get_string d ''highway_subnet_id''\<rparr>,
       ContainerNetwork = \<lparr>cn_Mode = Get_string d ''container_network_type'',
         Cidr = Get_string d ''container_network_cidr''\<rparr>,
       Authentication = \<lparr>au_Mode = Get_string d ''authentication_mode'',
         AuthenticatingProxy =
           (if hasFilledOpt meta d ''authenticating_proxy_ca''
            then [(''ca'', Get_string d ''authenticating_proxy_ca'')] else [])\<rparr>,
       BillingMode = Get_int d ''billing_mode'',
       ExtendParam = resourceClusterExtendParamV3 d\<rparr>\<rparr>"

definition waitForCCEClusterActive :: "Config \<Rightarrow> string \<Rightarrow> call list \<Rightarrow> ((Clusters option \<times> string \<times> error option) \<times> call list) exec" where
  "waitForCCEClusterActive meta clusterId h =
    (case clusters_Get meta h clusterId of (n, err) \<Rightarrow>
      (case err of
        Some e \<Rightarrow> Return ((None, [], Some e), h @ [ClustersGet clusterId])
      | None \<Rightarrow>
          (case n of
            None \<Rightarrow> Panic
          | Some c \<Rightarrow> Return ((Some c, Phase (cl_Status c), None), h @ [ClustersGet clusterId]))))"

definition waitForCCEClusterDelete :: "Config \<Rightarrow> string \<Rightarrow> call list \<Rightarrow> ((Clusters option \<times> string \<times> error option) \<times> call list) exec" where
  "waitForCCEClusterDelete meta clusterId h =
    (case clusters_Get meta h clusterId of (r, err) \<Rightarrow>
      if (case err of Some e \<Rightarrow> is_ErrDefault404 e | None \<Rightarrow> False)
      then Return ((r, ''Deleted'', None), h @ [ClustersGet clusterId])
      else
        (case r of
          None \<Rightarrow> Panic
        | Some c \<Rightarrow>
            if Phase (cl_Status c) = ''Deleting''
            then Return ((r, ''Deleting'', None), h @ [ClustersGet clusterId])
            else Return ((r, ''Available'', None), h @ [ClustersGet clusterId])))"

definition cce_read_fields :: "Clusters \<Rightarrow> (string \<times> val) list" where
  "cce_read_fields n =
    [(''name'', VString (md_Name (Metadata n))),
     (''status'', VString (Phase (cl_Status n))),
     (''flavor_id'', VString (Flavor (cl_Spec n))),
     (''cluster_version'', VString (Version (cl_Spec n))),
     (''cluster_type'', VString (sp_Type (cl_Spec n))),
     (''description'', VString (sp_Description (cl_Spec n))),
     (''billing_mode'', VInt (BillingMode (cl_Spec n))),
     (''vpc_id'', VString (VpcId (HostNetwork (cl_Spec n)))),
     (''subnet_id'', VString (SubnetId (HostNetwork (cl_Spec n)))),
     (''highway_subnet_id'', VString (HighwaySubnet (HostNetwork (cl_Spec n)))),
     (''container_network_type'', VString (cn_Mode (ContainerNetwork (cl_Spec n)))),
     (''container_network_cidr'', VString (Cidr (ContainerNetwork (cl_Spec n)))),
     (''authentication_mode'', VString (au_Mode (Authentication (cl_Spec n))))]"

definition clusterList :: "Certificate \<Rightarrow> (string \<times> string) list list" where
  "clusterList cert =
    map (\<lambda>clusterObj.
          [(''name'', cc_Name clusterObj),
           (''server'', Server (Cluster clusterObj)),
           (''certificate_authority_data'', CertAuthorityData (Cluster clusterObj))])
      (ce_Clusters cert)"

definition userList :: "Certificate \<Rightarrow> (string \<times> string) list list" where
  "userList cert =
    map (\<lambda>userObj.
          [(''name'', cu_Name userObj),
           (''client_certificate_data'', ClientCertData (User userObj)),
           (''client_key_data'', ClientKeyData (User userObj))])
      (ce_Users cert)"

text \<open>In \<open>resourceCCEClusterV3Read\<close> the error of \<open>clusters.GetCert\<close> is only
  logged; the handler goes on to read \<open>cert.Clusters\<close> whatever the error was.\<close>

definition resourceCCEClusterV3Read :: "Config \<Rightarrow> ResourceData \<Rightarrow> call list \<Rightarrow> outcome" where
  "resourceCCEClusterV3Read meta d h0 =
    (let h = h0 @ [CceV3Client (GetRegion meta d)] in
    (case cceV3Client meta (GetRegion meta d) of
      Some err \<Rightarrow> Return (Some (Errorf ''Error creating HuaweiCloud CCE client: '' err), d, h)
    | None \<Rightarrow>
        (case clusters_Get meta h (d_Id d) of (n, err) \<Rightarrow>
          (case err of
            Some e \<Rightarrow>
              if is_ErrDefault404 e
              then Return (None, SetId [] d, h @ [ClustersGet (d_Id d)])
              else Return (Some (Errorf ''Error retrieving HuaweiCloud CCE: '' e), d, h @ [ClustersGet (d_Id d)])
          | None \<Rightarrow>
              (case n of
                None \<Rightarrow> Panic
              | Some c \<Rightarrow>
                  (let d1 = Sets (cce_read_fields c) d;
                       d2 = Sets [(''region'', VString (GetRegion meta d1))] d1;
                       h1 = h @ [ClustersGet (d_Id d)]
                   in (case clusters_GetCert meta h1 (d_Id d2) of (cert, certErr) \<Rightarrow>
                        (case cert of
                          None \<Rightarrow> Panic
                        | Some ce \<Rightarrow>
                            Return (None,
                              Sets [(''certificate_clusters'', VList (clusterList ce)),
                                    (''certificate_users'', VList (userList ce))] d2,
                              h1 @ [ClustersGetCert (d_Id d2)])))))))))"

definition cce_create_stateConf :: "Config \<Rightarrow> ResourceData \<Rightarrow> string \<Rightarrow> Clusters StateChangeConf" where
  "cce_create_stateConf meta d clusterId =
    \<lparr>Pending = [''Creating''],
     Target = [''Available''],
     Refresh = waitForCCEClusterActive meta clusterId,
     Timeout = TimeoutCreate d,
     Delay = 5,
     MinTimeout = 3\<rparr>"

definition resourceCCEClusterV3Create :: "Config \<Rightarrow> ResourceData \<Rightarrow> call list \<Rightarrow> outcome" where
  "resourceCCEClusterV3Create meta d h0 =
    (let h = h0 @ [CceV3Client (GetRegion meta d)] in
    (case cceV3Client meta (GetRegion meta d) of
      Some err \<Rightarrow> Return (Some (Errorf ''Unable to create HuaweiCloud CCE client : '' err), d, h)
    | None \<Rightarrow>
        (let createOpts = cce_createOpts meta d;
             h1 = h @ [ClustersCreate createOpts]
         in (case clusters_Create meta h createOpts of (create, err) \<Rightarrow>
              (case err of
                Some e \<Rightarrow> Return (Some (Errorf ''Error creating HuaweiCloud Cluster: '' e), d, h1)
              | None \<Rightarrow>
                  (case create of
                    None \<Rightarrow> Panic
                  | Some c \<Rightarrow>
                      (case WaitForState (cce_create_stateConf meta d (md_Id (Metadata c))) h1 of
                        Panic \<Rightarrow> Panic
                      | Return ((res, waitErr), h2) \<Rightarrow>
                          (case waitErr of
                            Some e \<Rightarrow> Return (Some (Errorf ''Error creating HuaweiCloud CCE cluster: '' e), d, h2)
                          | None \<Rightarrow> resourceCCEClusterV3Read meta (SetId (md_Id (Metadata c)) d) h2))))))))"

definition cce_updateOpts :: "ResourceData \<Rightarrow> UpdateOpts" where
  "cce_updateOpts d =
    \<lparr>uo_Spec = \<lparr>us_Description =
      (if HasChange d ''description'' then Get_string d ''description'' else [])\<rparr>\<rparr>"

text \<open>The schema keys whose value an update payload holds: the fields that are no
  longer the zero value that \<open>var updateOpts\<close> starts from.\<close>

definition cce_update_keys :: "UpdateOpts \<Rightarrow> string list" where
  "cce_update_keys opts = (if us_Description (uo_Spec opts) \<noteq> [] then [''description''] else [])"

definition resourceCCEClusterV3Update :: "Config \<Rightarrow> ResourceData \<Rightarrow> call list \<Rightarrow> outcome" where
  "resourceCCEClusterV3Update meta d h0 =
    (let h = h0 @ [CceV3Client (GetRegion meta d)] in
    (case cceV3Client meta (GetRegion meta d) of
      Some err \<Rightarrow> Return (Some (Errorf ''Error creating HuaweiCloud CCE Client: '' err), d, h)
    | None \<Rightarrow>
        (let updateOpts = cce_updateOpts d;
             h1 = h @ [ClustersUpdate (d_Id d) updateOpts]
         in (case clusters_Update meta h (d_Id d) updateOpts of (res, err) \<Rightarrow>
              (case err of
                Some e \<Rightarrow> Return (Some (Errorf ''Error updating HuaweiCloud CCE: '' e), d, h1)
              | None \<Rightarrow> resourceCCEClusterV3Read meta d h1)))))"

definition cce_delete_stateConf :: "Config \<Rightarrow> ResourceData \<Rightarrow> Clusters StateChangeConf" where
  "cce_delete_stateConf meta d =
    \<lparr>Pending = [''Deleting'', ''Available'', ''Unavailable''],
     Target = [''Deleted''],
     Refresh = waitForCCEClusterDelete meta (d_Id d),
     Timeout = TimeoutDelete d,
     Delay = 5,
     MinTimeout = 3\<rparr>"

definition resourceCCEClusterV3Delete :: "Config \<Rightarrow> ResourceData \<Rightarrow> call list \<Rightarrow> outcome" where
  "resourceCCEClusterV3Delete meta d h0 =
    (let h = h0 @ [CceV3Client (GetRegion meta d)] in
    (case cceV3Client meta (GetRegion meta d) of
      Some err \<Rightarrow> Return (Some (Errorf ''Error creating HuaweiCloud CCE Client: '' err), d, h)
    | None \<Rightarrow>
        (case clusters_Delete meta h (d_Id d) of
          Some e \<Rightarrow> Return (Some (Errorf ''Error deleting HuaweiCloud CCE Cluster: '' e), d, h @ [ClustersDelete (d_Id d)])
        | None \<Rightarrow>
            (case WaitForState (cce_delete_stateConf meta d) (h @ [ClustersDelete (d_Id d)]) of
              Panic \<Rightarrow> Panic
            | Return ((res, waitErr), h2) \<Rightarrow>
                (case waitErr of
                  Some e \<Rightarrow> Return (Some (Errorf ''Error deleting HuaweiCloud CCE cluster: '' e), d, h2)
                | None \<Rightarrow> Return (None, SetId [] d, h2))))))"

section \<open>Resource: virtual private cloud\<close>

definition waitForVpcActive :: "Config \<Rightarrow> string \<Rightarrow> call list \<Rightarrow> ((Vpc option \<times> string \<times> error option) \<times> call list) exec" where
  "waitForVpcActive meta vpcId h =
    (case vpcs_Get meta h vpcId of (n, err) \<Rightarrow>
      (case err of
        Some e \<Rightarrow> Return ((None, [], Some e), h @ [VpcsGet vpcId])
      | None \<Rightarrow>
          (case n of
            None \<Rightarrow> Panic
          | Some v \<Rightarrow>
              if vpc_Status v = ''OK'' then Return ((Some v, ''ACTIVE'', None), h @ [VpcsGet vpcId])
              else if vpc_Status v = ''DOWN''
              then Return ((None, [], Some (ErrorString (''Vpc status: '' @ [CHR 0x27] @ vpc_Status v @ [CHR 0x27]))),
                     h @ [VpcsGet vpcId])
              else Return ((Some v, vpc_Status v, None), h @ [VpcsGet vpcId]))))"

text \<open>The refresh function of the delete waiter sends the removal request itself,
  once the get has succeeded.\<close>

definition waitForVpcDelete :: "Config \<Rightarrow> string \<Rightarrow> call list \<Rightarrow> ((Vpc option \<times> string \<times> error option) \<times> call list) exec" where
  "waitForVpcDelete meta vpcId h =
    (case vpcs_Get meta h vpcId of (r, err) \<Rightarrow>
      (case err of
        Some e \<Rightarrow>
          if is_ErrDefault404 e then Return ((r, ''DELETED'', None), h @ [VpcsGet vpcId])
          else Return ((r, ''ACTIVE'', Some e), h @ [VpcsGet vpcId])
      | None \<Rightarrow>
          (case vpcs_Delete meta (h @ [VpcsGet vpcId]) vpcId of
            Some e \<Rightarrow>
              if is_ErrDefault404 e
              then Return ((r, ''DELETED'', None), h @ [VpcsGet vpcId, VpcsDelete vpcId])
              else if as_ErrUnexpectedResponseCode e = Some 409
              then Return ((r, ''ACTIVE'', None), h @ [VpcsGet vpcId, VpcsDelete vpcId])
              else Return ((r, ''ACTIVE'', Some e), h @ [VpcsGet vpcId, VpcsDelete vpcId])
          | None \<Rightarrow> Return ((r, ''ACTIVE'', None), h @ [VpcsGet vpcId, VpcsDelete vpcId]))))"

definition routes :: "Vpc \<Rightarrow> (string \<times> string) list list" where
  "routes n =
    map (\<lambda>rtb. [(''destination'', DestinationCIDR rtb), (''nexthop'', NextHop rtb)]) (Routes n)"

definition vpc_read_fields :: "Vpc \<Rightarrow> (string \<times> val) list" where
  "vpc_read_fields n =
    [(''name'', VString (vpc_Name n)),
     (''cidr'', VString (vpc_CIDR n)),
     (''status'', VString (vpc_Status n)),
     (''shared'', VBool (EnableSharedSnat n))]"

definition resourceVirtualPrivateCloudV1Read :: "Config \<Rightarrow> ResourceData \<Rightarrow> call list \<Rightarrow> outcome" where
  "resourceVirtualPrivateCloudV1Read meta d h0 =
    (let h = h0 @ [NetworkingV1Client (GetRegion meta d)] in
    (case networkingV1Client meta (GetRegion meta d) of
      Some err \<Rightarrow> Return (Some (Errorf ''Error creating Huaweicloud Vpc client: '' err), d, h)
    | None \<Rightarrow>
        (case vpcs_Get meta h (d_Id d) of (n, err) \<Rightarrow>
          (case err of
            Some e \<Rightarrow>
              if is_ErrDefault404 e
              then Return (None, SetId [] d, h @ [VpcsGet (d_Id d)])
              else Return (Some (Errorf ''Error retrieving Huaweicloud Vpc: '' e), d, h @ [VpcsGet (d_Id d)])
          | None \<Rightarrow>
              (case n of
                None \<Rightarrow> Panic
              | Some v \<Rightarrow>
                  (let d1 = Sets (vpc_read_fields v) d;
                       d2 = Sets [(''region'', VString (GetRegion meta d1))] d1;
                       d3 = Sets [(''routes'', VList (routes v))] d2;
                       h1 = h @ [VpcsGet (d_Id d), NetworkingV2Client (GetRegion meta d3)]
                   in (case networkingV2Client meta (GetRegion meta d3) of
                        Some err2 \<Rightarrow> Return (Some (Errorf ''Error creating Huaweicloud vpc client: '' err2), d3, h1)
                      | None \<Rightarrow>
                          (case tags_Get meta h1 ''vpcs'' (d_Id d3) of (resourceTags, tagErr) \<Rightarrow>
                            (case tagErr of
                              Some e \<Rightarrow>
                                if is_ErrDefault404 e
                                then Return (None, d3, h1 @ [TagsGet ''vpcs'' (d_Id d3)])
                                else Return (Some (Errorf (''Error fetching HuaweiCloud VPC '' @ d_Id d3 @ '' tags: '') e),
                                       d3, h1 @ [TagsGet ''vpcs'' (d_Id d3)])
                            | None \<Rightarrow>
                                (case resourceTags of
                                  None \<Rightarrow> Panic
                                | Some rt \<Rightarrow>
                                    (case d_Set ''tags'' (VMap (tagsToMap meta (Tags rt))) d3 of (setErr, d4) \<Rightarrow>
                                      (case setErr of
                                        Some e \<Rightarrow>
                                          Return (Some (Errorf (''Error saving HuaweiCloud VPC '' @ d_Id d4 @ '' tags: '') e),
                                            d4, h1 @ [TagsGet ''vpcs'' (d_Id d3)])
                                      | None \<Rightarrow> Return (None, d4, h1 @ [TagsGet ''vpcs'' (d_Id d3)])))))))))))))"

definition vpc_create_stateConf :: "Config \<Rightarrow> ResourceData \<Rightarrow> string \<Rightarrow> Vpc StateChangeConf" where
  "vpc_create_stateConf meta d vpcId =
    \<lparr>Pending = [''CREATING''],
     Target = [''ACTIVE''],
     Refresh = waitForVpcActive meta vpcId,
     Timeout = TimeoutCreate d,
     Delay = 5,
     MinTimeout = 3\<rparr>"

text \<open>\<open>%q\<close> prints the ID between double quotes.\<close>

definition quoted :: "string \<Rightarrow> string" where
  "quoted s = [CHR 0x22] @ s @ [CHR 0x22]"

definition vpc_createOpts :: "ResourceData \<Rightarrow> VpcCreateOpts" where
  "vpc_createOpts d = \<lparr>vco_Name = Get_string d ''name'', vco_CIDR = Get_string d ''cidr''\<rparr>"

definition resourceVirtualPrivateCloudV1Create :: "Config \<Rightarrow> ResourceData \<Rightarrow> call list \<Rightarrow> outcome" where
  "resourceVirtualPrivateCloudV1Create meta d h0 =
    (let h = h0 @ [NetworkingV1Client (GetRegion meta d)] in
    (case networkingV1Client meta (GetRegion meta d) of
      Some err \<Rightarrow> Return (Some (Errorf ''Error creating Huaweicloud vpc client: '' err), d, h)
    | None \<Rightarrow>
        (let createOpts = vpc_createOpts d;
             h1 = h @ [VpcsCreate createOpts]
         in (case vpcs_Create meta h createOpts of (n, err) \<Rightarrow>
              (case err of
                Some e \<Rightarrow> Return (Some (Errorf ''Error creating Huaweicloud VPC: '' e), d, h1)
              | None \<Rightarrow>
                  (case n of
                    None \<Rightarrow> Panic
                  | Some v \<Rightarrow>
                      (let d1 = SetId (vpc_ID v) d in
                       (case WaitForState (vpc_create_stateConf meta d1 (vpc_ID v)) h1 of
                         Panic \<Rightarrow> Panic
                       | Return ((res, stateErr), h2) \<Rightarrow>
                           (case stateErr of
                             Some e \<Rightarrow>
                               Return (Some (Errorf (''Error waiting for Vpc ('' @ vpc_ID v @ '') to become ACTIVE: '') e),
                                 d1, h2)
                           | None \<Rightarrow>
                               (let tagRaw = Get_map d1 ''tags'' in
                                if length tagRaw > 0
                                then
                                  (let h3 = h2 @ [NetworkingV2Client (GetRegion meta d1)] in
                                  (case networkingV2Client meta (GetRegion meta d1) of
                                    Some err2 \<Rightarrow>
                                      Return (Some (Errorf ''Error creating Huaweicloud vpc client: '' err2), d1, h3)
                                  | None \<Rightarrow>
                                      (case tags_Create meta h3 ''vpcs'' (vpc_ID v) (expandResourceTags meta tagRaw) of
                                        Some tagErr \<Rightarrow>
                                          Return (Some (Errorf (''Error setting tags of VirtualPrivateCloud ''
                                                    @ quoted (vpc_ID v) @ '': '') tagErr),
                                            d1, h3 @ [TagsCreate ''vpcs'' (vpc_ID v) (expandResourceTags meta tagRaw)])
                                      | None \<Rightarrow>
                                          resourceVirtualPrivateCloudV1Read meta d1
                                            (h3 @ [TagsCreate ''vpcs'' (vpc_ID v) (expandResourceTags meta tagRaw)]))))
                                else resourceVirtualPrivateCloudV1Read meta d1 h2))))))))))"

definition vpc_updateOpts :: "ResourceData \<Rightarrow> VpcUpdateOpts" where
  "vpc_updateOpts d =
    \<lparr>vuo_Name = (if HasChange d ''name'' then Get_string d ''name'' else []),
     vuo_CIDR = (if HasChange d ''cidr'' then Get_string d ''cidr'' else [])\<rparr>"

definition vpc_update_keys :: "VpcUpdateOpts \<Rightarrow> string list" where
  "vpc_update_keys opts =
    (if vuo_Name opts \<noteq> [] then [''name''] else []) @ (if vuo_CIDR opts \<noteq> [] then [''cidr''] else [])"

definition resourceVirtualPrivateCloudV1Update :: "Config \<Rightarrow> ResourceData \<Rightarrow> call list \<Rightarrow> outcome" where
  "resourceVirtualPrivateCloudV1Update meta d h0 =
    (let h = h0 @ [NetworkingV1Client (GetRegion meta d)] in
    (case networkingV1Client meta (GetRegion meta d) of
      Some err \<Rightarrow> Return (Some (Errorf ''Error creating Huaweicloud Vpc: '' err), d, h)
    | None \<Rightarrow>
        (let updateOpts = vpc_updateOpts d;
             h1 = h @ [VpcsUpdate (d_Id d) updateOpts]
         in (case vpcs_Update meta h (d_Id d) updateOpts of (res, err) \<Rightarrow>
              (case err of
                Some e \<Rightarrow> Return (Some (Errorf ''Error updating Huaweicloud Vpc: '' e), d, h1)
              | None \<Rightarrow>
                  if HasChange d ''tags''
                  then
                    (let h2 = h1 @ [NetworkingV2Client (GetRegion meta d)] in
                    (case networkingV2Client meta (GetRegion meta d) of
                      Some err2 \<Rightarrow> Return (Some (Errorf ''Error creating Huaweicloud vpc client: '' err2), d, h2)
                    | None \<Rightarrow>
                        (case UpdateResourceTags meta h2 d ''vpcs'' of
                          Some tagErr \<Rightarrow>
                            Return (Some (Errorf (''Error updating tags of VPC '' @ d_Id d @ '': '') tagErr),
                              d, h2 @ [TagsUpdate d ''vpcs''])
                        | None \<Rightarrow> resourceVirtualPrivateCloudV1Read meta d (h2 @ [TagsUpdate d ''vpcs'']))))
                  else resourceVirtualPrivateCloudV1Read meta d h1)))))"

definition vpc_delete_stateConf :: "Config \<Rightarrow> ResourceData \<Rightarrow> Vpc StateChangeConf" where
  "vpc_delete_stateConf meta d =
    \<lparr>Pending = [''ACTIVE''],
     Target = [''DELETED''],
     Refresh = waitForVpcDelete meta (d_Id d),
     Timeout = TimeoutDelete d,
     Delay = 5,
     MinTimeout = 3\<rparr>"

definition resourceVirtualPrivateCloudV1Delete :: "Config \<Rightarrow> ResourceData \<Rightarrow> call list \<Rightarrow> outcome" where
  "resourceVirtualPrivateCloudV1Delete meta d h0 =
    (let h = h0 @ [NetworkingV1Client (GetRegion meta d)] in
    (case networkingV1Client meta (GetRegion meta d) of
      Some err \<Rightarrow> Return (Some (Errorf ''Error creating Huaweicloud vpc: '' err), d, h)
    | None \<Rightarrow>
        (case WaitForState (vpc_delete_stateConf meta d) h of
          Panic \<Rightarrow> Panic
        | Return ((res, waitErr), h2) \<Rightarrow>
            (case waitErr of
              Some e \<Rightarrow> Return (Some (Errorf ''Error deleting Huaweicloud Vpc: '' e), d, h2)
            | None \<Rightarrow> Return (None, SetId [] d, h2)))))"

section \<open>The upstream errors of a run\<close>

text \<open>
  The error with which the cloud answers a request, given the requests sent before it.
  Each handler above hands the call the record of requests as it stands just before
  the request is added to it.
\<close>

fun answer_err :: "Config \<Rightarrow> call list \<Rightarrow> call \<Rightarrow> error option" where
  "answer_err meta h (DmsV1Client region) = dmsV1Client meta region"
| "answer_err meta h (CceV3Client region) = cceV3Client meta region"
| "answer_err meta h (NetworkingV1Client region) = networkingV1Client meta region"
| "answer_err meta h (NetworkingV2Client region) = networkingV2Client meta region"
| "answer_err meta h MaintainWindowsGet = snd (maintainwindows_Get meta h)"
| "answer_err meta h (ClustersCreate opts) = snd (clusters_Create meta h opts)"
| "answer_err meta h (ClustersGet clusterId) = snd (clusters_Get meta h clusterId)"
| "answer_err meta h (ClustersGetCert clusterId) = snd (clusters_GetCert meta h clusterId)"
| "answer_err meta h (ClustersUpdate clusterId opts) = snd (clusters_Update meta h clusterId opts)"
| "answer_err meta h (ClustersDelete clusterId) = clusters_Delete meta h clusterId"
| "answer_err meta h (VpcsCreate opts) = snd (vpcs_Create meta h opts)"
| "answer_err meta h (VpcsGet vpcId) = snd (vpcs_Get meta h vpcId)"
| "answer_err meta h (VpcsUpdate vpcId opts) = snd (vpcs_Update meta h vpcId opts)"
| "answer_err meta h (VpcsDelete vpcId) = vpcs_Delete meta h vpcId"
| "answer_err meta h (TagsCreate ty rid tags) = tags_Create meta h ty rid tags"
| "answer_err meta h (TagsGet ty rid) = snd (tags_Get meta h ty rid)"
| "answer_err meta h (TagsUpdate d ty) = UpdateResourceTags meta h d ty"

text \<open>The requests among \<open>cs\<close>, sent one after the other once \<open>h\<close> has been sent,
  that were answered with an error, each with its error.\<close>

fun upstream_errors :: "Config \<Rightarrow> call list \<Rightarrow> call list \<Rightarrow> (call \<times> error) list" where
  "upstream_errors meta h [] = []"
| "upstream_errors meta h (c # cs) =
    (case answer_err meta h c of None \<Rightarrow> [] | Some e \<Rightarrow> [(c, e)]) @ upstream_errors meta (h @ [c]) cs"

text \<open>The handler's result \<open>res\<close> is the upstream error \<open>e\<close> with a prefix put
  before its message.\<close>

definition wrapped :: "error \<Rightarrow> error option \<Rightarrow> bool" where
  "wrapped e res = (\<exists>prefix. res = Some (ErrorString (prefix @ Error e)))"

definition returned_or :: "(call \<Rightarrow> error \<Rightarrow> bool) \<Rightarrow> error option \<Rightarrow> call \<Rightarrow> error \<Rightarrow> bool" where
  "returned_or tolerated res c e = (wrapped e res \<or> tolerated c e)"

text \<open>The data source hands the error of its get call back as it is.\<close>

fun ds_returned :: "error option \<Rightarrow> call \<Rightarrow> error \<Rightarrow> bool" where
  "ds_returned res MaintainWindowsGet e = (res = Some e)"
| "ds_returned res c e = wrapped e res"

text \<open>A not-found error answered to a get or to a tags fetch.\<close>

fun not_found_on_get :: "call \<Rightarrow> error \<Rightarrow> bool" where
  "not_found_on_get (ClustersGet clusterId) e = is_ErrDefault404 e"
| "not_found_on_get (VpcsGet vpcId) e = is_ErrDefault404 e"
| "not_found_on_get (TagsGet ty rid) e = is_ErrDefault404 e"
| "not_found_on_get c e = False"

text \<open>For the cluster's Read, Create and Update nothing is said about an error of the
  certificate fetch.\<close>

fun cce_read_tolerated :: "call \<Rightarrow> error \<Rightarrow> bool" where
  "cce_read_tolerated (ClustersGetCert clusterId) e = True"
| "cce_read_tolerated c e = not_found_on_get c e"

text \<open>For the cluster's Delete nothing is said about an error of a get in the polling
  loop (a not-found error ends the loop with success).\<close>

fun cce_delete_tolerated :: "call \<Rightarrow> error \<Rightarrow> bool" where
  "cce_delete_tolerated (ClustersGet clusterId) e = True"
| "cce_delete_tolerated c e = False"

text \<open>In the polling loop of the VPC's Delete a not-found error of the get or of the
  removal call means the VPC is gone, and a 409 of the removal call means it is still
  there.\<close>

fun vpc_delete_tolerated :: "call \<Rightarrow> error \<Rightarrow> bool" where
  "vpc_delete_tolerated (VpcsGet vpcId) e = is_ErrDefault404 e"
| "vpc_delete_tolerated (VpcsDelete vpcId) e =
    (is_ErrDefault404 e \<or> as_ErrUnexpectedResponseCode e = Some 409)"
| "vpc_delete_tolerated c e = False"

text \<open>A run that started after the requests \<open>h\<close> and returned accounts for its
  upstream errors when each of them satisfies \<open>ok\<close> with the returned error.\<close>

definition accounts :: "Config \<Rightarrow> (error option \<Rightarrow> call \<Rightarrow> error \<Rightarrow> bool) \<Rightarrow> call list \<Rightarrow> outcome \<Rightarrow> bool" where
  "accounts meta ok h out =
    (case out of
      Panic \<Rightarrow> True
    | Return (res, d', log) \<Rightarrow>
        take (length h) log = h
        \<and> list_all (\<lambda>(c, e). ok res c e) (upstream_errors meta h (drop (length h) log)))"

section \<open>Sample clouds and records\<close>

text \<open>Concrete inputs on which the theorems below are exercised. In \<open>quiet\<close> every
  client can be made and every request fails; the other clouds override single
  answers. \<open>blank\<close> is a record with no identity and no field set.\<close>

definition quiet :: Config where
  "quiet =
    \<lparr>GetRegion = (\<lambda>d. ''region-1''),
     hasFilledOpt = (\<lambda>d key. attrs d key \<noteq> None),
     expandResourceTags = map (\<lambda>(k, v). \<lparr>Key = k, Value = v\<rparr>),
     tagsToMap = map (\<lambda>t. (Key t, Value t)),
     dmsV1Client = (\<lambda>region. None),
     cceV3Client = (\<lambda>region. None),
     networkingV1Client = (\<lambda>region. None),
     networkingV2Client = (\<lambda>region. None),
     maintainwindows_Get = (\<lambda>h. (None, Some (ErrOther ''unreachable''))),
     clusters_Create = (\<lambda>h opts. (None, Some (ErrOther ''unreachable''))),
     clusters_Get = (\<lambda>h clusterId. (None, Some (ErrOther ''unreachable''))),
     clusters_GetCert = (\<lambda>h clusterId. (None, Some (ErrOther ''unreachable''))),
     clusters_Update = (\<lambda>h clusterId opts. (None, Some (ErrOther ''unreachable''))),
     clusters_Delete = (\<lambda>h clusterId. Some (ErrOther ''unreachable'')),
     vpcs_Create = (\<lambda>h opts. (None, Some (ErrOther ''unreachable''))),
     vpcs_Get = (\<lambda>h vpcId. (None, Some (ErrOther ''unreachable''))),
     vpcs_Update = (\<lambda>h vpcId opts. (None, Some (ErrOther ''unreachable''))),
     vpcs_Delete = (\<lambda>h vpcId. Some (ErrOther ''unreachable'')),
     tags_Create = (\<lambda>h ty rid tags. Some (ErrOther ''unreachable'')),
     tags_Get = (\<lambda>h ty rid. (None, Some (ErrOther ''unreachable''))),
     UpdateResourceTags = (\<lambda>h d ty. Some (ErrOther ''unreachable''))\<rparr>"

definition blank :: ResourceData where
  "blank = \<lparr>d_Id = [], attrs = Map.empty, HasChange = (\<lambda>key. False), TimeoutCreate = 3, TimeoutDelete = 3\<rparr>"

definition two_windows :: Config where
  "two_windows = quiet\<lparr>maintainwindows_Get := (\<lambda>h. (Some \<lparr>MaintainWindows =
      [\<lparr>mw_ID = 1, mw_Begin = ''22'', mw_End = ''02'', mw_Default = True\<rparr>,
       \<lparr>mw_ID = 12, mw_Begin = ''02'', mw_End = ''06'', mw_Default = False\<rparr>]\<rparr>, None))\<rparr>"

definition begin_02 :: ResourceData where
  "begin_02 = blank\<lparr>attrs := [''begin'' \<mapsto> VString ''02'']\<rparr>"

definition default_window_only :: Config where
  "default_window_only = quiet\<lparr>maintainwindows_Get := (\<lambda>h. (Some \<lparr>MaintainWindows =
      [\<lparr>mw_ID = 1, mw_Begin = ''22'', mw_End = ''02'', mw_Default = True\<rparr>]\<rparr>, None))\<rparr>"

definition cluster_gone :: Config where
  "cluster_gone = quiet\<lparr>clusters_Get := (\<lambda>h clusterId. (None, Some (ErrDefault404 ''Resource not found'')))\<rparr>"

definition with_id :: "string \<Rightarrow> ResourceData" where
  "with_id s = blank\<lparr>d_Id := s\<rparr>"

definition a_vpc :: "string \<Rightarrow> Vpc" where
  "a_vpc st = \<lparr>vpc_ID = ''v-1'', vpc_Name = ''net'', vpc_CIDR = ''10.0.0.0/8'', vpc_Status = st,
     EnableSharedSnat = False, Routes = []\<rparr>"

definition conflict :: Config where
  "conflict = quiet\<lparr>vpcs_Get := (\<lambda>h vpcId. (Some (a_vpc ''OK''), None)),
     vpcs_Delete := (\<lambda>h vpcId. Some (ErrUnexpectedResponseCode 409 ''Conflict'')),
     clusters_Get := (\<lambda>h clusterId. (None, Some (ErrDefault404 ''Resource not found'')))\<rparr>"

definition a_cluster :: "string \<Rightarrow> Clusters" where
  "a_cluster ph =
    \<lparr>Metadata = \<lparr>md_Id = ''c-1'', md_Name = ''k8s''\<rparr>,
     cl_Spec = \<lparr>sp_Type = ''VirtualMachine'', Flavor = ''cce.s1.small'', Version = ''v1.11'',
       sp_Description = ''demo'',
       HostNetwork = \<lparr>VpcId = ''v-1'', SubnetId = ''s-1'', HighwaySubnet = []\<rparr>,
       ContainerNetwork = \<lparr>cn_Mode = ''overlay_l2'', Cidr = ''172.16.0.0/16''\<rparr>,
       Authentication = \<lparr>au_Mode = ''x509'', AuthenticatingProxy = []\<rparr>,
       BillingMode = 0, ExtendParam = []\<rparr>,
     cl_Status = \<lparr>Phase = ph\<rparr>\<rparr>"

definition failing_create :: Config where
  "failing_create = quiet
    \<lparr>vpcs_Create := (\<lambda>h opts. (Some (a_vpc ''CREATING''), None)),
     vpcs_Get := (\<lambda>h vpcId. if length h < 3 then (Some (a_vpc ''CREATING''), None)
                             else (Some (a_vpc ''DOWN''), None)),
     clusters_Create := (\<lambda>h opts. (Some (a_cluster ''Creating''), None)),
     clusters_Get := (\<lambda>h clusterId. if length h < 3 then (Some (a_cluster ''Creating''), None)
                                     else (Some (a_cluster ''Unavailable''), None))\<rparr>"

definition renamed :: ResourceData where
  "renamed = \<lparr>d_Id = ''r-1'',
     attrs = [''name'' \<mapsto> VString ''blue'', ''cidr'' \<mapsto> VString ''10.0.0.0/8'',
              ''description'' \<mapsto> VString ''second'', ''flavor_id'' \<mapsto> VString ''cce.s1.small''],
     HasChange = (\<lambda>key. key = ''name'' \<or> key = ''description''),
     TimeoutCreate = 3, TimeoutDelete = 3\<rparr>"

definition accepts_update :: Config where
  "accepts_update = quiet
    \<lparr>vpcs_Update := (\<lambda>h vpcId opts. (Some (a_vpc ''OK''), None)),
     clusters_Update := (\<lambda>h clusterId opts. (Some (a_cluster ''Available''), None))\<rparr>"

definition never_ready :: Config where
  "never_ready = quiet
    \<lparr>vpcs_Create := (\<lambda>h opts. (Some (a_vpc ''CREATING''), None)),
     vpcs_Get := (\<lambda>h vpcId. (Some (a_vpc ''DOWN''), None)),
     clusters_Create := (\<lambda>h opts. (Some (a_cluster ''Creating''), None)),
     clusters_Get := (\<lambda>h clusterId. (Some (a_cluster ''Unavailable''), None))\<rparr>"

definition slow_removal :: Config where
  "slow_removal = quiet
    \<lparr>vpcs_Get := (\<lambda>h vpcId. if length h < 5 then (Some (a_vpc ''OK''), None)
                             else (None, Some (ErrDefault404 ''Resource not found''))),
     vpcs_Delete := (\<lambda>h vpcId. if length h < 3 then None
                                else Some (ErrUnexpectedResponseCode 409 ''Conflict'')),
     clusters_Delete := (\<lambda>h clusterId. None),
     clusters_Get := (\<lambda>h clusterId. if length h < 3 then (Some (a_cluster ''Deleting''), None)
                                     else (None, Some (ErrDefault404 ''Resource not found'')))\<rparr>"


definition vanishing :: Config where
  "vanishing = quiet
    \<lparr>vpcs_Create := (\<lambda>h opts. (Some (a_vpc ''CREATING''), None)),
     vpcs_Get := (\<lambda>h vpcId. (None, Some (ErrDefault404 ''Resource not found''))),
     clusters_Create := (\<lambda>h opts. (Some (a_cluster ''Creating''), None)),
     clusters_Get := (\<lambda>h clusterId. (None, Some (ErrDefault404 ''Resource not found'')))\<rparr>"


section \<open>Auxiliary facts\<close>

lemma filter_loop_filter: "filter_loop d mvs acc = acc @ filter (\<lambda>mv. \<not> excluded d mv) mvs"
  by (induction mvs arbitrary: acc) auto

lemma find_filter_case: "find P xs = (case filter P xs of [] \<Rightarrow> None | x # ys \<Rightarrow> Some x)"
  by (induction xs) auto

lemma Sets_Nil [simp]: "Sets [] d = d"
  by (simp add: Sets_def)

lemma Sets_Cons [simp]: "Sets ((key, v) # kvs) d = Sets kvs (d\<lparr>attrs := (attrs d)(key \<mapsto> v)\<rparr>)"
  by (simp add: Sets_def d_Set_def)

lemma d_Id_Sets [simp]: "d_Id (Sets kvs d) = d_Id d"
  by (induction kvs arbitrary: d) auto

lemma poll_after_pending:
  "after_pending conf k h = Some hk \<Longrightarrow> poll conf (k + n) h = poll conf n hk"
proof (induction k arbitrary: h)
  case 0
  then show ?case by simp
next
  case (Suc k)
  then show ?case
    by (auto split: exec.splits prod.splits option.splits if_splits)
qed

lemma Timeout_vpc_create [simp]: "Timeout (vpc_create_stateConf meta d vpcId) = TimeoutCreate d"
  by (simp add: vpc_create_stateConf_def)

lemma Timeout_cce_create [simp]: "Timeout (cce_create_stateConf meta d clusterId) = TimeoutCreate d"
  by (simp add: cce_create_stateConf_def)

lemma TimeoutCreate_SetId [simp]: "TimeoutCreate (SetId s d) = TimeoutCreate d"
  by (simp add: SetId_def)

lemma vpc_create_stateConf_SetId [simp]:
  "vpc_create_stateConf meta (SetId s d) vpcId = vpc_create_stateConf meta d vpcId"
  by (simp add: vpc_create_stateConf_def)

lemma vpc_poll_down:
  assumes "vpcs_Get meta hk vpcId = (Some s, None)" and "vpc_Status s = ''DOWN''"
  shows "poll (vpc_create_stateConf meta d vpcId) (Suc n) hk =
    Return ((None, Some (ErrorString (''Vpc status: '' @ [CHR 0x27] @ ''DOWN'' @ [CHR 0x27]))), hk @ [VpcsGet vpcId])"
  using assms by (simp add: vpc_create_stateConf_def waitForVpcActive_def)

lemma cce_poll_unavailable:
  assumes "clusters_Get meta hk clusterId = (Some s, None)" and "Phase (cl_Status s) = ''Unavailable''"
  shows "poll (cce_create_stateConf meta d clusterId) (Suc n) hk =
    Return ((Some s, Some (UnexpectedStateError ''Unavailable'')), hk @ [ClustersGet clusterId])"
  using assms by (simp add: cce_create_stateConf_def waitForCCEClusterActive_def)

lemma ex_less_Suc: "(\<exists>k<Suc n. P k) = (P 0 \<or> (\<exists>k<n. P (Suc k)))"
  by (metis less_Suc_eq_0_disj not_less_zero zero_less_Suc Suc_less_eq)

lemma poll_success_iff:
  "poll conf n h = Return ((res, None), hs) \<longleftrightarrow>
    (\<exists>k<n. \<exists>hk st. after_pending conf k h = Some hk
       \<and> Refresh conf hk = Return ((res, st, None), hs) \<and> st \<in> set (Target conf))"
proof (induction n arbitrary: h)
  case 0
  then show ?case by simp
next
  case (Suc n)
  show ?case
  proof (cases "Refresh conf h")
    case Panic
    then show ?thesis by (simp add: ex_less_Suc)
  next
    case (Return x)
    obtain r st err h' where x: "x = ((r, st, err), h')"
      by (metis prod.exhaust)
    show ?thesis
    proof (cases err)
      case (Some e)
      with Return x show ?thesis by (simp add: ex_less_Suc)
    next
      case None
      show ?thesis
      proof (cases "st \<in> set (Target conf)")
        case True
        with Return x None show ?thesis by (auto simp: ex_less_Suc)
      next
        case False
        note nt = this
        show ?thesis
        proof (cases "st \<in> set (Pending conf)")
          case True
          with Return x None nt Suc.IH [of h'] show ?thesis by (simp add: ex_less_Suc)
        next
          case False
          with Return x None nt show ?thesis by (simp add: ex_less_Suc)
        qed
      qed
    qed
  qed
qed


lemma cce_delete_refresh_target:
  "(\<exists>res st. Refresh (cce_delete_stateConf meta d) hk = Return ((res, st, None), hs)
      \<and> st \<in> set (Target (cce_delete_stateConf meta d))) \<longleftrightarrow>
   (\<exists>e. snd (clusters_Get meta hk (d_Id d)) = Some e \<and> is_ErrDefault404 e
      \<and> hs = hk @ [ClustersGet (d_Id d)])"
  by (auto simp: cce_delete_stateConf_def waitForCCEClusterDelete_def
      split: prod.splits option.splits if_splits)

lemma vpc_delete_refresh_target:
  "(\<exists>res st. Refresh (vpc_delete_stateConf meta d) hk = Return ((res, st, None), hs)
      \<and> st \<in> set (Target (vpc_delete_stateConf meta d))) \<longleftrightarrow>
   ((\<exists>e. snd (vpcs_Get meta hk (d_Id d)) = Some e \<and> is_ErrDefault404 e
      \<and> hs = hk @ [VpcsGet (d_Id d)])
    \<or> (snd (vpcs_Get meta hk (d_Id d)) = None
      \<and> (\<exists>e. vpcs_Delete meta (hk @ [VpcsGet (d_Id d)]) (d_Id d) = Some e \<and> is_ErrDefault404 e)
      \<and> hs = hk @ [VpcsGet (d_Id d), VpcsDelete (d_Id d)]))"
  by (auto simp: vpc_delete_stateConf_def waitForVpcDelete_def
      split: prod.splits option.splits if_splits)

lemma poll_success_ex:
  "(\<exists>res. poll conf n h = Return ((res, None), hs)) \<longleftrightarrow>
    (\<exists>k<n. \<exists>hk. after_pending conf k h = Some hk
       \<and> (\<exists>res st. Refresh conf hk = Return ((res, st, None), hs) \<and> st \<in> set (Target conf)))"
  unfolding poll_success_iff by blast

lemma cce_delete_poll_log:
  "poll (cce_delete_stateConf meta d) n h = Return (x, hs) \<Longrightarrow>
    \<exists>k. hs = h @ replicate k (ClustersGet (d_Id d))"
proof (induction n arbitrary: h)
  case 0
  then show ?case by auto
next
  case (Suc n)
  show ?case
  proof (cases "Refresh (cce_delete_stateConf meta d) h")
    case Panic
    with Suc.prems show ?thesis by simp
  next
    case (Return y)
    obtain r st err h' where y: "y = ((r, st, err), h')"
      by (metis prod.exhaust)
    from Return y have h': "h' = h @ [ClustersGet (d_Id d)]"
      by (auto simp: cce_delete_stateConf_def waitForCCEClusterDelete_def
          split: prod.splits option.splits if_splits)
    have one: "hs = h' \<Longrightarrow> ?thesis"
      using h' by (intro exI [of _ "Suc 0"]) simp
    have more: "poll (cce_delete_stateConf meta d) n h' = Return (x, hs) \<Longrightarrow> ?thesis"
    proof -
      assume "poll (cce_delete_stateConf meta d) n h' = Return (x, hs)"
      from Suc.IH [OF this] obtain k where "hs = h' @ replicate k (ClustersGet (d_Id d))" ..
      with h' have "hs = h @ replicate (Suc k) (ClustersGet (d_Id d))"
        by simp
      then show ?thesis ..
    qed
    from Suc.prems Return y one more show ?thesis
      by (auto split: option.splits if_splits)
  qed
qed

lemma Timeout_cce_delete [simp]: "Timeout (cce_delete_stateConf meta d) = TimeoutDelete d"
  by (simp add: cce_delete_stateConf_def)

lemma Timeout_vpc_delete [simp]: "Timeout (vpc_delete_stateConf meta d) = TimeoutDelete d"
  by (simp add: vpc_delete_stateConf_def)

lemma slow_removal_vpc_run:
  "resourceVirtualPrivateCloudV1Delete slow_removal (with_id ''v-1'') [] =
     Return (None, with_id [],
       [NetworkingV1Client ''region-1'', VpcsGet ''v-1'', VpcsDelete ''v-1'',
        VpcsGet ''v-1'', VpcsDelete ''v-1'', VpcsGet ''v-1''])"
  by (simp add: slow_removal_def quiet_def with_id_def blank_def
      resourceVirtualPrivateCloudV1Delete_def WaitForState_def vpc_delete_stateConf_def
      waitForVpcDelete_def SetId_def eval_nat_numeral)

lemma slow_removal_cce_run:
  "resourceCCEClusterV3Delete slow_removal (with_id ''c-1'') [] =
     Return (None, with_id [],
       [CceV3Client ''region-1'', ClustersDelete ''c-1'', ClustersGet ''c-1'', ClustersGet ''c-1''])"
  by (simp add: slow_removal_def quiet_def with_id_def blank_def a_cluster_def
      resourceCCEClusterV3Delete_def WaitForState_def cce_delete_stateConf_def
      waitForCCEClusterDelete_def SetId_def eval_nat_numeral)

lemma upstream_errors_append:
  "upstream_errors meta h (cs1 @ cs2) = upstream_errors meta h cs1 @ upstream_errors meta (h @ cs1) cs2"
  by (induction cs1 arbitrary: h) auto

lemma wrapped_Errorf [simp]: "wrapped e (Some (Errorf prefix e))"
  by (auto simp: wrapped_def Errorf_def)

lemma accounts_Panic [simp]: "accounts meta ok h Panic"
  by (simp add: accounts_def)

lemma accounts_Return [simp]:
  "accounts meta ok h (Return (res, d', h @ cs)) = list_all (\<lambda>(c, e). ok res c e) (upstream_errors meta h cs)"
  by (simp add: accounts_def)

lemma accounts_extend:
  assumes "accounts meta (returned_or tol) (h @ cs) out"
    and "list_all (\<lambda>(c, e). tol c e) (upstream_errors meta h cs)"
  shows "accounts meta (returned_or tol) h out"
proof (cases out)
  case Panic
  then show ?thesis by simp
next
  case (Return x)
  obtain res d' log where x: "x = (res, d', log)"
    by (metis prod.exhaust)
  from assms(1) Return x have t: "take (length (h @ cs)) log = h @ cs"
    and l: "list_all (\<lambda>(c, e). returned_or tol res c e)
              (upstream_errors meta (h @ cs) (drop (length (h @ cs)) log))"
    by (simp_all add: accounts_def)
  from t have log: "log = h @ cs @ drop (length (h @ cs)) log"
    by (metis append_take_drop_id append.assoc)
  have "list_all (\<lambda>(c, e). returned_or tol res c e) (upstream_errors meta h cs)"
    using assms(2) by (auto simp: list_all_iff returned_or_def)
  with l have "list_all (\<lambda>(c, e). returned_or tol res c e)
      (upstream_errors meta h (cs @ drop (length (h @ cs)) log))"
    by (simp add: upstream_errors_append)
  then have "accounts meta (returned_or tol) h (Return (res, d', h @ (cs @ drop (length (h @ cs)) log)))"
    by (simp only: accounts_Return)
  with log Return x show ?thesis
    by simp
qed

lemma poll_accounts:
  assumes step: "\<And>h r st err h'. Refresh conf h = Return ((r, st, err), h') \<Longrightarrow>
      \<exists>cs. h' = h @ cs \<and> list_all (\<lambda>(c, e). err = Some e \<or> tol c e) (upstream_errors meta h cs)"
  shows "poll conf n h = Return ((r, err), hs) \<Longrightarrow>
      \<exists>cs. hs = h @ cs \<and> list_all (\<lambda>(c, e). err = Some e \<or> tol c e) (upstream_errors meta h cs)"
proof (induction n arbitrary: h)
  case 0
  then show ?case by simp
next
  case (Suc n)
  show ?case
  proof (cases "Refresh conf h")
    case Panic
    with Suc.prems show ?thesis by simp
  next
    case (Return y)
    obtain r1 st err1 h' where y: "y = ((r1, st, err1), h')"
      by (metis prod.exhaust)
    from step [of h r1 st err1 h'] Return y obtain cs1 where h': "h' = h @ cs1"
      and l1: "list_all (\<lambda>(c, e). err1 = Some e \<or> tol c e) (upstream_errors meta h cs1)"
      by auto
    show ?thesis
    proof (cases err1)
      case (Some e1)
      with Suc.prems Return y have "hs = h'" "err = Some e1"
        by simp_all
      with h' l1 Some show ?thesis
        by auto
    next
      case None
      with l1 have tol1: "list_all (\<lambda>(c, e). tol c e) (upstream_errors meta h cs1)"
        by (simp add: list_all_iff)
      then have any: "list_all (\<lambda>(c, e). err = Some e \<or> tol c e) (upstream_errors meta h cs1)"
        by (auto simp: list_all_iff)
      consider (target) "st \<in> set (Target conf)"
        | (pending) "st \<notin> set (Target conf)" "st \<in> set (Pending conf)"
        | (other) "st \<notin> set (Target conf)" "st \<notin> set (Pending conf)"
        by blast
      then show ?thesis
      proof cases
        case target
        with Suc.prems Return y None have "hs = h'"
          by simp
        with h' any show ?thesis
          by auto
      next
        case pending
        with Suc.prems Return y None have "poll conf n h' = Return ((r, err), hs)"
          by simp
        from Suc.IH [OF this] obtain cs2 where hs: "hs = h' @ cs2"
          and l2: "list_all (\<lambda>(c, e). err = Some e \<or> tol c e) (upstream_errors meta h' cs2)"
          by auto
        from hs h' have "hs = h @ (cs1 @ cs2)"
          by simp
        moreover from any l2 h' have "list_all (\<lambda>(c, e). err = Some e \<or> tol c e)
            (upstream_errors meta h (cs1 @ cs2))"
          by (simp add: upstream_errors_append)
        ultimately show ?thesis
          by blast
      next
        case other
        with Suc.prems Return y None have "hs = h'"
          by simp
        with h' any show ?thesis
          by auto
      qed
    qed
  qed
qed


lemma ds_read_accounts:
  "accounts meta ds_returned h (dataSourceDmsMaintainWindowV1Read meta d h)"
  by (auto simp: dataSourceDmsMaintainWindowV1Read_def Let_def split: option.splits prod.splits)

lemma cce_read_accounts:
  "accounts meta (returned_or cce_read_tolerated) h (resourceCCEClusterV3Read meta d h)"
  by (auto simp: resourceCCEClusterV3Read_def Let_def returned_or_def split: option.splits prod.splits)

lemma vpc_read_accounts:
  "accounts meta (returned_or not_found_on_get) h (resourceVirtualPrivateCloudV1Read meta d h)"
  by (auto simp: resourceVirtualPrivateCloudV1Read_def Let_def returned_or_def d_Set_def
      split: option.splits prod.splits)

lemma cce_active_step:
  "waitForCCEClusterActive meta clusterId h = Return ((r, st, err), h') \<Longrightarrow>
    \<exists>cs. h' = h @ cs \<and> list_all (\<lambda>(c, e). err = Some e) (upstream_errors meta h cs)"
  by (auto simp: waitForCCEClusterActive_def split: option.splits prod.splits)

lemma vpc_active_step:
  "waitForVpcActive meta vpcId h = Return ((r, st, err), h') \<Longrightarrow>
    \<exists>cs. h' = h @ cs \<and> list_all (\<lambda>(c, e). err = Some e) (upstream_errors meta h cs)"
  by (auto simp: waitForVpcActive_def split: option.splits prod.splits if_splits)

lemma cce_delete_step:
  "waitForCCEClusterDelete meta clusterId h = Return ((r, st, err), h') \<Longrightarrow>
    \<exists>cs. h' = h @ cs \<and> list_all (\<lambda>(c, e). err = Some e \<or> cce_delete_tolerated c e) (upstream_errors meta h cs)"
  by (auto simp: waitForCCEClusterDelete_def split: option.splits prod.splits if_splits)

lemma vpc_delete_step:
  "waitForVpcDelete meta vpcId h = Return ((r, st, err), h') \<Longrightarrow>
    \<exists>cs. h' = h @ cs \<and> list_all (\<lambda>(c, e). err = Some e \<or> vpc_delete_tolerated c e) (upstream_errors meta h cs)"
  by (auto simp: waitForVpcDelete_def split: option.splits prod.splits if_splits)


lemma cce_create_poll:
  assumes "poll (cce_create_stateConf meta d clusterId) n h = Return ((r, err), hs)"
  shows "\<exists>cs. hs = h @ cs \<and> list_all (\<lambda>(c, e). err = Some e) (upstream_errors meta h cs)"
proof (rule poll_accounts [where tol = "\<lambda>c e. False", simplified, OF _ assms])
  fix h r st err h'
  assume "Refresh (cce_create_stateConf meta d clusterId) h = Return ((r, st, err), h')"
  then show "\<exists>cs. h' = h @ cs \<and> list_all (\<lambda>(c, e). err = Some e) (upstream_errors meta h cs)"
    by (simp add: cce_create_stateConf_def cce_active_step)
qed

lemma vpc_create_poll:
  assumes "poll (vpc_create_stateConf meta d vpcId) n h = Return ((r, err), hs)"
  shows "\<exists>cs. hs = h @ cs \<and> list_all (\<lambda>(c, e). err = Some e) (upstream_errors meta h cs)"
proof (rule poll_accounts [where tol = "\<lambda>c e. False", simplified, OF _ assms])
  fix h r st err h'
  assume "Refresh (vpc_create_stateConf meta d vpcId) h = Return ((r, st, err), h')"
  then show "\<exists>cs. h' = h @ cs \<and> list_all (\<lambda>(c, e). err = Some e) (upstream_errors meta h cs)"
    by (simp add: vpc_create_stateConf_def vpc_active_step)
qed

lemma cce_delete_poll:
  assumes "poll (cce_delete_stateConf meta d) n h = Return ((r, err), hs)"
  shows "\<exists>cs. hs = h @ cs
    \<and> list_all (\<lambda>(c, e). err = Some e \<or> cce_delete_tolerated c e) (upstream_errors meta h cs)"
proof (rule poll_accounts [OF _ assms])
  fix h r st err h'
  assume "Refresh (cce_delete_stateConf meta d) h = Return ((r, st, err), h')"
  then show "\<exists>cs. h' = h @ cs
      \<and> list_all (\<lambda>(c, e). err = Some e \<or> cce_delete_tolerated c e) (upstream_errors meta h cs)"
    by (simp add: cce_delete_stateConf_def cce_delete_step)
qed

lemma vpc_delete_poll:
  assumes "poll (vpc_delete_stateConf meta d) n h = Return ((r, err), hs)"
  shows "\<exists>cs. hs = h @ cs
    \<and> list_all (\<lambda>(c, e). err = Some e \<or> vpc_delete_tolerated c e) (upstream_errors meta h cs)"
proof (rule poll_accounts [OF _ assms])
  fix h r st err h'
  assume "Refresh (vpc_delete_stateConf meta d) h = Return ((r, st, err), h')"
  then show "\<exists>cs. h' = h @ cs
      \<and> list_all (\<lambda>(c, e). err = Some e \<or> vpc_delete_tolerated c e) (upstream_errors meta h cs)"
    by (simp add: vpc_delete_stateConf_def vpc_delete_step)
qed

text \<open>What a handler makes of the waiter's result: the waiter's error wrapped, or, when
  the wait succeeded, the outcome of what follows.\<close>

lemma after_wait_accounts:
  assumes w: "\<exists>cs. hs = hb @ cs \<and> list_all (\<lambda>(c, e). err = Some e \<or> inner c e) (upstream_errors meta hb cs)"
    and hb: "hb = h @ pre" and pre: "upstream_errors meta h pre = []"
    and inner: "\<And>c e. inner c e \<Longrightarrow> tol c e"
    and ok: "err = None \<Longrightarrow> accounts meta (returned_or tol) hs out"
    and bad: "\<And>e. err = Some e \<Longrightarrow> \<exists>prefix d'. out = Return (Some (Errorf prefix e), d', hs)"
  shows "accounts meta (returned_or tol) h out"
proof -
  from w obtain cs where hs: "hs = hb @ cs"
    and l: "list_all (\<lambda>(c, e). err = Some e \<or> inner c e) (upstream_errors meta hb cs)"
    by blast
  from hs hb have hs': "hs = h @ (pre @ cs)"
    by simp
  have ue: "upstream_errors meta h (pre @ cs) = upstream_errors meta hb cs"
    by (simp add: upstream_errors_append pre hb)
  show ?thesis
  proof (cases err)
    case None
    with l inner have "list_all (\<lambda>(c, e). tol c e) (upstream_errors meta h (pre @ cs))"
      unfolding ue by (auto simp: list_all_iff)
    moreover from ok None hs' have "accounts meta (returned_or tol) (h @ (pre @ cs)) out"
      by simp
    ultimately show ?thesis
      by (rule accounts_extend [rotated])
  next
    case (Some e')
    from bad [OF Some] obtain prefix d' where out: "out = Return (Some (Errorf prefix e'), d', hs)"
      by blast
    from l Some inner have "list_all (\<lambda>(c, e). returned_or tol (Some (Errorf prefix e')) c e)
        (upstream_errors meta h (pre @ cs))"
      unfolding ue by (auto simp: list_all_iff returned_or_def)
    with out hs' show ?thesis
      by (simp only: accounts_Return)
  qed
qed

lemma cce_delete_accounts:
  "accounts meta (returned_or cce_delete_tolerated) h (resourceCCEClusterV3Delete meta d h)"
proof (cases "cceV3Client meta (GetRegion meta d)")
  case (Some e)
  then show ?thesis
    by (simp add: resourceCCEClusterV3Delete_def returned_or_def)
next
  case None
  note client = this
  show ?thesis
  proof (cases "clusters_Delete meta (h @ [CceV3Client (GetRegion meta d)]) (d_Id d)")
    case (Some e)
    with client show ?thesis
      by (simp add: resourceCCEClusterV3Delete_def returned_or_def)
  next
    case None
    note removal = this
    show ?thesis
    proof (cases "poll (cce_delete_stateConf meta d) (TimeoutDelete d)
        (h @ [CceV3Client (GetRegion meta d), ClustersDelete (d_Id d)])")
      case Panic
      with client removal show ?thesis
        by (simp add: resourceCCEClusterV3Delete_def WaitForState_def)
    next
      case (Return x)
      obtain r err hs where x: "x = ((r, err), hs)"
        by (metis prod.exhaust)
      show ?thesis
      proof (rule after_wait_accounts [where pre = "[CceV3Client (GetRegion meta d), ClustersDelete (d_Id d)]"
            and inner = cce_delete_tolerated and err = err and hs = hs,
            OF cce_delete_poll [OF Return [unfolded x]]])
        show "h @ [CceV3Client (GetRegion meta d), ClustersDelete (d_Id d)] =
            h @ [CceV3Client (GetRegion meta d), ClustersDelete (d_Id d)]" ..
        show "upstream_errors meta h [CceV3Client (GetRegion meta d), ClustersDelete (d_Id d)] = []"
          using client removal by simp
        show "\<And>c e. cce_delete_tolerated c e \<Longrightarrow> cce_delete_tolerated c e" .
        show "err = None \<Longrightarrow>
            accounts meta (returned_or cce_delete_tolerated) hs (resourceCCEClusterV3Delete meta d h)"
          using client removal Return x
          by (simp add: resourceCCEClusterV3Delete_def WaitForState_def accounts_def)
        show "\<And>e. err = Some e \<Longrightarrow>
            \<exists>prefix d'. resourceCCEClusterV3Delete meta d h = Return (Some (Errorf prefix e), d', hs)"
          using client removal Return x
          by (auto simp: resourceCCEClusterV3Delete_def WaitForState_def)
      qed
    qed
  qed
qed


lemma cce_read_after:
  "upstream_errors meta h cs = [] \<Longrightarrow>
    accounts meta (returned_or cce_read_tolerated) h (resourceCCEClusterV3Read meta d (h @ cs))"
  by (rule accounts_extend [OF cce_read_accounts]) simp

lemma vpc_read_after:
  "upstream_errors meta h cs = [] \<Longrightarrow>
    accounts meta (returned_or not_found_on_get) h (resourceVirtualPrivateCloudV1Read meta d (h @ cs))"
  by (rule accounts_extend [OF vpc_read_accounts]) simp

lemma cce_update_accounts:
  "accounts meta (returned_or cce_read_tolerated) h (resourceCCEClusterV3Update meta d h)"
  by (auto simp: resourceCCEClusterV3Update_def Let_def returned_or_def
      intro!: cce_read_after split: option.splits prod.splits)

lemma vpc_update_accounts:
  "accounts meta (returned_or not_found_on_get) h (resourceVirtualPrivateCloudV1Update meta d h)"
  by (auto simp: resourceVirtualPrivateCloudV1Update_def Let_def returned_or_def
      intro!: vpc_read_after split: option.splits prod.splits)

lemma vpc_delete_accounts:
  "accounts meta (returned_or vpc_delete_tolerated) h (resourceVirtualPrivateCloudV1Delete meta d h)"
proof (cases "networkingV1Client meta (GetRegion meta d)")
  case (Some e)
  then show ?thesis
    by (simp add: resourceVirtualPrivateCloudV1Delete_def returned_or_def)
next
  case None
  note client = this
  show ?thesis
  proof (cases "poll (vpc_delete_stateConf meta d) (TimeoutDelete d)
      (h @ [NetworkingV1Client (GetRegion meta d)])")
    case Panic
    with client show ?thesis
      by (simp add: resourceVirtualPrivateCloudV1Delete_def WaitForState_def)
  next
    case (Return x)
    obtain r err hs where x: "x = ((r, err), hs)"
      by (metis prod.exhaust)
    show ?thesis
    proof (rule after_wait_accounts [where pre = "[NetworkingV1Client (GetRegion meta d)]"
          and inner = vpc_delete_tolerated and err = err and hs = hs,
          OF vpc_delete_poll [OF Return [unfolded x]]])
      show "h @ [NetworkingV1Client (GetRegion meta d)] = h @ [NetworkingV1Client (GetRegion meta d)]" ..
      show "upstream_errors meta h [NetworkingV1Client (GetRegion meta d)] = []"
        using client by simp
      show "\<And>c e. vpc_delete_tolerated c e \<Longrightarrow> vpc_delete_tolerated c e" .
      show "err = None \<Longrightarrow>
          accounts meta (returned_or vpc_delete_tolerated) hs (resourceVirtualPrivateCloudV1Delete meta d h)"
        using client Return x
        by (simp add: resourceVirtualPrivateCloudV1Delete_def WaitForState_def accounts_def)
      show "\<And>e. err = Some e \<Longrightarrow>
          \<exists>prefix d'. resourceVirtualPrivateCloudV1Delete meta d h = Return (Some (Errorf prefix e), d', hs)"
        using client Return x
        by (auto simp: resourceVirtualPrivateCloudV1Delete_def WaitForState_def)
    qed
  qed
qed

lemma cce_create_accounts:
  "accounts meta (returned_or cce_read_tolerated) h (resourceCCEClusterV3Create meta d h)"
proof (cases "cceV3Client meta (GetRegion meta d)")
  case (Some e)
  then show ?thesis
    by (simp add: resourceCCEClusterV3Create_def returned_or_def)
next
  case None
  note client = this
  obtain create cerr where cr:
    "clusters_Create meta (h @ [CceV3Client (GetRegion meta d)]) (cce_createOpts meta d) = (create, cerr)"
    by fastforce
  show ?thesis
  proof (cases cerr)
    case (Some e)
    with client cr show ?thesis
      by (simp add: resourceCCEClusterV3Create_def returned_or_def)
  next
    case None
    note created = this
    show ?thesis
    proof (cases create)
      case None
      with client cr created show ?thesis
        by (simp add: resourceCCEClusterV3Create_def)
    next
      case (Some c)
      show ?thesis
      proof (cases "poll (cce_create_stateConf meta d (md_Id (Metadata c))) (TimeoutCreate d)
          (h @ [CceV3Client (GetRegion meta d), ClustersCreate (cce_createOpts meta d)])")
        case Panic
        with client cr created Some show ?thesis
          by (simp add: resourceCCEClusterV3Create_def WaitForState_def)
      next
        case (Return x)
        obtain r err hs where x: "x = ((r, err), hs)"
          by (metis prod.exhaust)
        from cce_create_poll [OF Return [unfolded x]]
        have w: "\<exists>cs. hs = (h @ [CceV3Client (GetRegion meta d), ClustersCreate (cce_createOpts meta d)]) @ cs
            \<and> list_all (\<lambda>(c, e). err = Some e \<or> False)
                (upstream_errors meta (h @ [CceV3Client (GetRegion meta d), ClustersCreate (cce_createOpts meta d)]) cs)"
          by simp
        show ?thesis
        proof (rule after_wait_accounts [where
              pre = "[CceV3Client (GetRegion meta d), ClustersCreate (cce_createOpts meta d)]"
              and inner = "\<lambda>c e. False" and err = err and hs = hs, OF w])
          show "h @ [CceV3Client (GetRegion meta d), ClustersCreate (cce_createOpts meta d)] =
              h @ [CceV3Client (GetRegion meta d), ClustersCreate (cce_createOpts meta d)]" ..
          show "upstream_errors meta h [CceV3Client (GetRegion meta d), ClustersCreate (cce_createOpts meta d)] = []"
            using client cr created by simp
          show "\<And>c e. False \<Longrightarrow> cce_read_tolerated c e"
            by simp
          show "err = None \<Longrightarrow>
              accounts meta (returned_or cce_read_tolerated) hs (resourceCCEClusterV3Create meta d h)"
            using client cr created Some Return x
            by (simp add: resourceCCEClusterV3Create_def WaitForState_def cce_read_accounts)
          show "\<And>e. err = Some e \<Longrightarrow>
              \<exists>prefix d'. resourceCCEClusterV3Create meta d h = Return (Some (Errorf prefix e), d', hs)"
            using client cr created Some Return x
            by (auto simp: resourceCCEClusterV3Create_def WaitForState_def)
        qed
      qed
    qed
  qed
qed

lemma vpc_create_accounts:
  "accounts meta (returned_or not_found_on_get) h (resourceVirtualPrivateCloudV1Create meta d h)"
proof (cases "networkingV1Client meta (GetRegion meta d)")
  case (Some e)
  then show ?thesis
    by (simp add: resourceVirtualPrivateCloudV1Create_def returned_or_def)
next
  case None
  note client = this
  obtain n cerr where cr:
    "vpcs_Create meta (h @ [NetworkingV1Client (GetRegion meta d)]) (vpc_createOpts d) = (n, cerr)"
    by fastforce
  show ?thesis
  proof (cases cerr)
    case (Some e)
    with client cr show ?thesis
      by (simp add: resourceVirtualPrivateCloudV1Create_def returned_or_def)
  next
    case None
    note created = this
    show ?thesis
    proof (cases n)
      case None
      with client cr created show ?thesis
        by (simp add: resourceVirtualPrivateCloudV1Create_def)
    next
      case (Some v)
      show ?thesis
      proof (cases "poll (vpc_create_stateConf meta d (vpc_ID v)) (TimeoutCreate d)
          (h @ [NetworkingV1Client (GetRegion meta d), VpcsCreate (vpc_createOpts d)])")
        case Panic
        with client cr created Some show ?thesis
          by (simp add: resourceVirtualPrivateCloudV1Create_def WaitForState_def)
      next
        case (Return x)
        obtain r err hs where x: "x = ((r, err), hs)"
          by (metis prod.exhaust)
        from vpc_create_poll [OF Return [unfolded x]]
        have w: "\<exists>cs. hs = (h @ [NetworkingV1Client (GetRegion meta d), VpcsCreate (vpc_createOpts d)]) @ cs
            \<and> list_all (\<lambda>(c, e). err = Some e \<or> False)
                (upstream_errors meta (h @ [NetworkingV1Client (GetRegion meta d), VpcsCreate (vpc_createOpts d)]) cs)"
          by simp
        show ?thesis
        proof (rule after_wait_accounts [where
              pre = "[NetworkingV1Client (GetRegion meta d), VpcsCreate (vpc_createOpts d)]"
              and inner = "\<lambda>c e. False" and err = err and hs = hs, OF w])
          show "h @ [NetworkingV1Client (GetRegion meta d), VpcsCreate (vpc_createOpts d)] =
              h @ [NetworkingV1Client (GetRegion meta d), VpcsCreate (vpc_createOpts d)]" ..
          show "upstream_errors meta h [NetworkingV1Client (GetRegion meta d), VpcsCreate (vpc_createOpts d)] = []"
            using client cr created by simp
          show "\<And>c e. False \<Longrightarrow> not_found_on_get c e"
            by simp
          show "err = None \<Longrightarrow>
              accounts meta (returned_or not_found_on_get) hs (resourceVirtualPrivateCloudV1Create meta d h)"
            using client cr created Some Return x
            by (auto simp: resourceVirtualPrivateCloudV1Create_def WaitForState_def Let_def
                vpc_read_accounts returned_or_def intro!: vpc_read_after split: option.splits)
          show "\<And>e. err = Some e \<Longrightarrow>
              \<exists>prefix d'. resourceVirtualPrivateCloudV1Create meta d h = Return (Some (Errorf prefix e), d', hs)"
            using client cr created Some Return x
            by (auto simp: resourceVirtualPrivateCloudV1Create_def WaitForState_def)
        qed
      qed
    qed
  qed
qed

lemma quiet_vpc_read:
  "resourceVirtualPrivateCloudV1Read quiet (with_id ''v-1'') [] =
     Return (Some (ErrorString ''Error retrieving Huaweicloud Vpc: unreachable''), with_id ''v-1'',
       [NetworkingV1Client ''region-1'', VpcsGet ''v-1''])"
  by (simp add: resourceVirtualPrivateCloudV1Read_def quiet_def with_id_def blank_def Errorf_def)

lemma cce_create_poll_get_error:
  assumes "cceV3Client meta (GetRegion meta d) = None"
    and "clusters_Create meta (h @ [CceV3Client (GetRegion meta d)]) (cce_createOpts meta d) = (Some c, None)"
    and ap: "after_pending (cce_create_stateConf meta d (md_Id (Metadata c))) k
        (h @ [CceV3Client (GetRegion meta d), ClustersCreate (cce_createOpts meta d)]) = Some hk"
    and "k < TimeoutCreate d"
    and g: "snd (clusters_Get meta hk (md_Id (Metadata c))) = Some e"
  shows "resourceCCEClusterV3Create meta d h =
    Return (Some (Errorf ''Error creating HuaweiCloud CCE cluster: '' e), d,
      hk @ [ClustersGet (md_Id (Metadata c))])"
proof -
  from assms(4) obtain n where n: "TimeoutCreate d = k + Suc n"
    using less_iff_Suc_add by auto
  have "poll (cce_create_stateConf meta d (md_Id (Metadata c))) (TimeoutCreate d)
        (h @ [CceV3Client (GetRegion meta d), ClustersCreate (cce_createOpts meta d)]) =
      poll (cce_create_stateConf meta d (md_Id (Metadata c))) (Suc n) hk"
    unfolding n by (rule poll_after_pending [OF ap])
  also have "\<dots> = Return ((None, Some e), hk @ [ClustersGet (md_Id (Metadata c))])"
    using g by (auto simp: cce_create_stateConf_def waitForCCEClusterActive_def split: prod.splits)
  finally have "poll (cce_create_stateConf meta d (md_Id (Metadata c))) (TimeoutCreate d)
        (h @ [CceV3Client (GetRegion meta d), ClustersCreate (cce_createOpts meta d)]) =
      Return ((None, Some e), hk @ [ClustersGet (md_Id (Metadata c))])" .
  with assms(1,2) show ?thesis
    by (simp add: resourceCCEClusterV3Create_def WaitForState_def)
qed

lemma vpc_create_poll_get_error:
  assumes "networkingV1Client meta (GetRegion meta d) = None"
    and "vpcs_Create meta (h @ [NetworkingV1Client (GetRegion meta d)]) (vpc_createOpts d) = (Some v, None)"
    and ap: "after_pending (vpc_create_stateConf meta d (vpc_ID v)) k
        (h @ [NetworkingV1Client (GetRegion meta d), VpcsCreate (vpc_createOpts d)]) = Some hk"
    and "k < TimeoutCreate d"
    and g: "snd (vpcs_Get meta hk (vpc_ID v)) = Some e"
  shows "resourceVirtualPrivateCloudV1Create meta d h =
    Return (Some (Errorf (''Error waiting for Vpc ('' @ vpc_ID v @ '') to become ACTIVE: '') e),
      SetId (vpc_ID v) d, hk @ [VpcsGet (vpc_ID v)])"
proof -
  from assms(4) obtain n where n: "TimeoutCreate d = k + Suc n"
    using less_iff_Suc_add by auto
  have "poll (vpc_create_stateConf meta d (vpc_ID v)) (TimeoutCreate d)
        (h @ [NetworkingV1Client (GetRegion meta d), VpcsCreate (vpc_createOpts d)]) =
      poll (vpc_create_stateConf meta d (vpc_ID v)) (Suc n) hk"
    unfolding n by (rule poll_after_pending [OF ap])
  also have "\<dots> = Return ((None, Some e), hk @ [VpcsGet (vpc_ID v)])"
    using g by (auto simp: vpc_create_stateConf_def waitForVpcActive_def split: prod.splits)
  finally have "poll (vpc_create_stateConf meta d (vpc_ID v)) (TimeoutCreate d)
        (h @ [NetworkingV1Client (GetRegion meta d), VpcsCreate (vpc_createOpts d)]) =
      Return ((None, Some e), hk @ [VpcsGet (vpc_ID v)])" .
  with assms(1,2) show ?thesis
    by (simp add: resourceVirtualPrivateCloudV1Create_def WaitForState_def)
qed

subsection \<open>Further facts about the filters, the identity and the cluster's handlers\<close>

lemma unset_filters_exclude_by_default_only:
  assumes "attrs d ''seq'' = None" and "attrs d ''begin'' = None" and "attrs d ''end'' = None"
  shows "excluded d mv = (mw_Default mv \<noteq> Get_bool d ''default'')"
  using assms by (simp add: excluded_def Get_int_def Get_string_def)

lemma d_Id_SetId [simp]: "d_Id (SetId s d) = s"
  by (simp add: SetId_def)

lemma create_call_failure_keeps_record:
  "cceV3Client meta (GetRegion meta d) = None \<Longrightarrow>
   snd (clusters_Create meta (h @ [CceV3Client (GetRegion meta d)]) (cce_createOpts meta d)) = Some e \<Longrightarrow>
   resourceCCEClusterV3Create meta d h =
     Return (Some (Errorf ''Error creating HuaweiCloud Cluster: '' e), d,
       h @ [CceV3Client (GetRegion meta d), ClustersCreate (cce_createOpts meta d)])"
  "networkingV1Client meta (GetRegion meta d) = None \<Longrightarrow>
   snd (vpcs_Create meta (h @ [NetworkingV1Client (GetRegion meta d)]) (vpc_createOpts d)) = Some e \<Longrightarrow>
   resourceVirtualPrivateCloudV1Create meta d h =
     Return (Some (Errorf ''Error creating Huaweicloud VPC: '' e), d,
       h @ [NetworkingV1Client (GetRegion meta d), VpcsCreate (vpc_createOpts d)])"
  by (auto simp: resourceCCEClusterV3Create_def resourceVirtualPrivateCloudV1Create_def Let_def
      split: prod.splits)

lemma vpc_read_identity:
  "resourceVirtualPrivateCloudV1Read meta d h = Return (res, d', log) \<Longrightarrow>
    d_Id d' = d_Id d \<or> (d_Id d' = [] \<and> res = None)"
  by (auto simp: resourceVirtualPrivateCloudV1Read_def Let_def d_Set_def
      split: option.splits prod.splits if_splits)

lemma vpc_create_sets_identity:
  assumes "networkingV1Client meta (GetRegion meta d) = None"
    and "vpcs_Create meta (h @ [NetworkingV1Client (GetRegion meta d)]) (vpc_createOpts d) = (Some v, None)"
    and "resourceVirtualPrivateCloudV1Create meta d h = Return (res, d', log)"
  shows "d_Id d' = vpc_ID v \<or> (d_Id d' = [] \<and> res = None)"
  using assms
  by (auto simp: resourceVirtualPrivateCloudV1Create_def Let_def
      split: option.splits prod.splits if_splits exec.splits dest: vpc_read_identity)

lemma delete_identity:
  "resourceCCEClusterV3Delete meta d h = Return (res, d', log) \<Longrightarrow>
    d' = (if res = None then SetId [] d else d)"
  "resourceVirtualPrivateCloudV1Delete meta d h = Return (res, d', log) \<Longrightarrow>
    d' = (if res = None then SetId [] d else d)"
  by (auto simp: resourceCCEClusterV3Delete_def resourceVirtualPrivateCloudV1Delete_def Let_def
      split: option.splits prod.splits if_splits exec.splits)

lemma cce_delete_refresh_panic_iff:
  "waitForCCEClusterDelete meta clusterId h = Panic \<longleftrightarrow>
    fst (clusters_Get meta h clusterId) = None
    \<and> (case snd (clusters_Get meta h clusterId) of None \<Rightarrow> True | Some e \<Rightarrow> \<not> is_ErrDefault404 e)"
  by (auto simp: waitForCCEClusterDelete_def split: option.splits prod.splits if_splits)

lemma cce_delete_refresh_drops_error:
  "clusters_Get meta h clusterId = (Some c, Some e) \<Longrightarrow> \<not> is_ErrDefault404 e \<Longrightarrow>
    waitForCCEClusterDelete meta clusterId h =
      Return ((Some c, if Phase (cl_Status c) = ''Deleting'' then ''Deleting'' else ''Available'', None),
        h @ [ClustersGet clusterId])"
  by (simp add: waitForCCEClusterDelete_def)

lemma cce_read_cert_error_not_returned:
  "cceV3Client meta (GetRegion meta d) = None \<Longrightarrow>
   clusters_Get meta (h @ [CceV3Client (GetRegion meta d)]) (d_Id d) = (Some c, None) \<Longrightarrow>
   resourceCCEClusterV3Read meta d h = Return (res, d', log) \<Longrightarrow> res = None"
  by (auto simp: resourceCCEClusterV3Read_def Let_def split: option.splits prod.splits)


section \<open>The data source\<close>

text \<open>
  C1. When the client is made and the list of windows is fetched: if every window of
  the list is excluded by the filter comparison, Read returns the "no results" error
  and leaves the record, its identity included, as it was; if some window passes, Read
  returns no error and the record gets the first passing window's fields: the identity
  from its sequence number, and \<open>begin\<close>, \<open>end\<close> and \<open>default\<close>.
\<close>

theorem C1_lookup:
  assumes "dmsV1Client meta (GetRegion meta d) = None"
    and "maintainwindows_Get meta (h @ [DmsV1Client (GetRegion meta d)]) = (Some r, None)"
  shows "((\<forall>mv \<in> set (MaintainWindows r). excluded d mv) \<longrightarrow>
            dataSourceDmsMaintainWindowV1Read meta d h =
              Return (Some no_results, d, h @ [DmsV1Client (GetRegion meta d), MaintainWindowsGet]))
       \<and> ((\<exists>mv \<in> set (MaintainWindows r). \<not> excluded d mv) \<longrightarrow>
            (\<exists>mw. find (\<lambda>mv. \<not> excluded d mv) (MaintainWindows r) = Some mw
              \<and> dataSourceDmsMaintainWindowV1Read meta d h =
                  Return (None,
                    d\<lparr>d_Id := Itoa (mw_ID mw),
                      attrs := (attrs d)(''begin'' \<mapsto> VString (mw_Begin mw),
                                         ''end'' \<mapsto> VString (mw_End mw),
                                         ''default'' \<mapsto> VBool (mw_Default mw))\<rparr>,
                    h @ [DmsV1Client (GetRegion meta d), MaintainWindowsGet])))"
proof (intro conjI impI)
  assume "\<forall>mv \<in> set (MaintainWindows r). excluded d mv"
  then have "filter (\<lambda>mv. \<not> excluded d mv) (MaintainWindows r) = []"
    by (simp add: filter_empty_conv)
  with assms show "dataSourceDmsMaintainWindowV1Read meta d h =
      Return (Some no_results, d, h @ [DmsV1Client (GetRegion meta d), MaintainWindowsGet])"
    by (simp add: dataSourceDmsMaintainWindowV1Read_def filter_loop_filter)
next
  assume "\<exists>mv \<in> set (MaintainWindows r). \<not> excluded d mv"
  then obtain mw ys where f: "filter (\<lambda>mv. \<not> excluded d mv) (MaintainWindows r) = mw # ys"
    by (cases "filter (\<lambda>mv. \<not> excluded d mv) (MaintainWindows r)") (auto simp: filter_empty_conv)
  then have "find (\<lambda>mv. \<not> excluded d mv) (MaintainWindows r) = Some mw"
    by (simp add: find_filter_case)
  moreover from assms f have "dataSourceDmsMaintainWindowV1Read meta d h =
      Return (None,
        d\<lparr>d_Id := Itoa (mw_ID mw),
          attrs := (attrs d)(''begin'' \<mapsto> VString (mw_Begin mw),
                             ''end'' \<mapsto> VString (mw_End mw),
                             ''default'' \<mapsto> VBool (mw_Default mw))\<rparr>,
        h @ [DmsV1Client (GetRegion meta d), MaintainWindowsGet])"
    by (simp add: dataSourceDmsMaintainWindowV1Read_def filter_loop_filter SetId_def)
  ultimately show "\<exists>mw. find (\<lambda>mv. \<not> excluded d mv) (MaintainWindows r) = Some mw
      \<and> dataSourceDmsMaintainWindowV1Read meta d h =
          Return (None,
            d\<lparr>d_Id := Itoa (mw_ID mw),
              attrs := (attrs d)(''begin'' \<mapsto> VString (mw_Begin mw),
                                 ''end'' \<mapsto> VString (mw_End mw),
                                 ''default'' \<mapsto> VBool (mw_Default mw))\<rparr>,
            h @ [DmsV1Client (GetRegion meta d), MaintainWindowsGet])"
    by blast
qed

theorem C1_lookup_witness:
  "dmsV1Client two_windows (GetRegion two_windows begin_02) = None
   \<and> maintainwindows_Get two_windows [DmsV1Client ''region-1''] =
       (Some \<lparr>MaintainWindows =
          [\<lparr>mw_ID = 1, mw_Begin = ''22'', mw_End = ''02'', mw_Default = True\<rparr>,
           \<lparr>mw_ID = 12, mw_Begin = ''02'', mw_End = ''06'', mw_Default = False\<rparr>]\<rparr>, None)
   \<and> dataSourceDmsMaintainWindowV1Read two_windows begin_02 [] =
       Return (None,
         begin_02\<lparr>d_Id := ''12'',
           attrs := (attrs begin_02)(''begin'' \<mapsto> VString ''02'', ''end'' \<mapsto> VString ''06'',
                                      ''default'' \<mapsto> VBool False)\<rparr>,
         [DmsV1Client ''region-1'', MaintainWindowsGet])"
  using C1_lookup [of two_windows begin_02 "[]"
      "\<lparr>MaintainWindows =
          [\<lparr>mw_ID = 1, mw_Begin = ''22'', mw_End = ''02'', mw_Default = True\<rparr>,
           \<lparr>mw_ID = 12, mw_Begin = ''02'', mw_End = ''06'', mw_Default = False\<rparr>]\<rparr>"]
  by (simp add: two_windows_def quiet_def begin_02_def blank_def excluded_def Get_int_def
      Get_string_def Get_bool_def Itoa_def Itoa_nat.simps digit_def)

text \<open>
  C2. The schema declares \<open>default\<close> optional, like \<open>seq\<close>, \<open>begin\<close> and
  \<open>end\<close>, but the loop compares it without asking whether it was supplied: with no
  filter set at all, a window whose default flag is true is excluded, and a list that
  holds only that window yields "no results".
\<close>

theorem C2_unset_default_excludes:
  "attrs blank ''seq'' = None \<and> attrs blank ''begin'' = None \<and> attrs blank ''end'' = None
   \<and> attrs blank ''default'' = None
   \<and> map_option Optional (map_of dataSourceDmsMaintainWindowV1_Schema ''default'') = Some True
   \<and> excluded blank \<lparr>mw_ID = 1, mw_Begin = ''22'', mw_End = ''02'', mw_Default = True\<rparr>
   \<and> dataSourceDmsMaintainWindowV1Read default_window_only blank [] =
       Return (Some no_results, blank, [DmsV1Client ''region-1'', MaintainWindowsGet])"
  by (simp add: default_window_only_def quiet_def blank_def excluded_def Get_int_def
      Get_string_def Get_bool_def dataSourceDmsMaintainWindowV1Read_def
      dataSourceDmsMaintainWindowV1_Schema_def field_def)

section \<open>Read of a resource that is gone\<close>

text \<open>
  C3. When the client is made and the get call of a resource Read fails: on a
  not-found error (404) Read sets the identity to the empty string and returns no
  error; on any other error it returns that error wrapped, and leaves the record as it
  was. This holds for the CCE cluster and for the VPC.
\<close>

theorem C3_read_get_failure:
  "(cceV3Client meta (GetRegion meta d) = None
      \<and> clusters_Get meta (h @ [CceV3Client (GetRegion meta d)]) (d_Id d) = (n, Some e) \<longrightarrow>
    resourceCCEClusterV3Read meta d h =
      (if is_ErrDefault404 e
       then Return (None, d\<lparr>d_Id := []\<rparr>, h @ [CceV3Client (GetRegion meta d), ClustersGet (d_Id d)])
       else Return (Some (Errorf ''Error retrieving HuaweiCloud CCE: '' e), d,
              h @ [CceV3Client (GetRegion meta d), ClustersGet (d_Id d)])))
   \<and> (networkingV1Client meta (GetRegion meta d) = None
      \<and> vpcs_Get meta (h @ [NetworkingV1Client (GetRegion meta d)]) (d_Id d) = (v, Some e') \<longrightarrow>
    resourceVirtualPrivateCloudV1Read meta d h =
      (if is_ErrDefault404 e'
       then Return (None, d\<lparr>d_Id := []\<rparr>, h @ [NetworkingV1Client (GetRegion meta d), VpcsGet (d_Id d)])
       else Return (Some (Errorf ''Error retrieving Huaweicloud Vpc: '' e'), d,
              h @ [NetworkingV1Client (GetRegion meta d), VpcsGet (d_Id d)])))"
  by (simp add: resourceCCEClusterV3Read_def resourceVirtualPrivateCloudV1Read_def SetId_def)

theorem C3_read_get_failure_witness:
  "cceV3Client cluster_gone (GetRegion cluster_gone (with_id ''c-1'')) = None
   \<and> clusters_Get cluster_gone [CceV3Client ''region-1''] ''c-1'' =
       (None, Some (ErrDefault404 ''Resource not found''))
   \<and> resourceCCEClusterV3Read cluster_gone (with_id ''c-1'') [] =
       Return (None, with_id [], [CceV3Client ''region-1'', ClustersGet ''c-1''])
   \<and> networkingV1Client cluster_gone (GetRegion cluster_gone (with_id ''v-1'')) = None
   \<and> vpcs_Get cluster_gone [NetworkingV1Client ''region-1''] ''v-1'' = (None, Some (ErrOther ''unreachable''))
   \<and> resourceVirtualPrivateCloudV1Read cluster_gone (with_id ''v-1'') [] =
       Return (Some (ErrorString ''Error retrieving Huaweicloud Vpc: unreachable''), with_id ''v-1'',
         [NetworkingV1Client ''region-1'', VpcsGet ''v-1''])"
  using C3_read_get_failure [of cluster_gone "with_id ''c-1''" "[]" None "ErrDefault404 ''Resource not found''"
      None "ErrOther ''unreachable''"]
    C3_read_get_failure [of cluster_gone "with_id ''v-1''" "[]" None "ErrDefault404 ''Resource not found''"
      None "ErrOther ''unreachable''"]
  by (simp add: cluster_gone_def quiet_def with_id_def blank_def Errorf_def)

section \<open>Polling\<close>

text \<open>
  C4. In a poll step of the VPC delete waiter whose removal call fails with an
  unexpected response code 409, the refresh function reports the status \<open>ACTIVE\<close>
  with no error; \<open>ACTIVE\<close> is the pending status of that waiter and not its target, so
  the waiter goes on to the next poll. A poll step of the CCE cluster's delete waiter
  sends a get and nothing else, so no removal call can fail in it.
\<close>

theorem C4_delete_conflict_is_pending:
  "(vpcs_Get meta h vpcId = (r, None)
      \<and> vpcs_Delete meta (h @ [VpcsGet vpcId]) vpcId = Some (ErrUnexpectedResponseCode 409 msg) \<longrightarrow>
    waitForVpcDelete meta vpcId h = Return ((r, ''ACTIVE'', None), h @ [VpcsGet vpcId, VpcsDelete vpcId])
    \<and> ''ACTIVE'' \<in> set (Pending (vpc_delete_stateConf meta d))
    \<and> ''ACTIVE'' \<notin> set (Target (vpc_delete_stateConf meta d))
    \<and> (vpcId = d_Id d \<longrightarrow>
         poll (vpc_delete_stateConf meta d) (Suc k) h =
         poll (vpc_delete_stateConf meta d) k (h @ [VpcsGet vpcId, VpcsDelete vpcId])))
   \<and> (\<forall>x h'. waitForCCEClusterDelete meta clusterId h = Return (x, h') \<longrightarrow> h' = h @ [ClustersGet clusterId])"
  by (auto simp: waitForVpcDelete_def vpc_delete_stateConf_def waitForCCEClusterDelete_def
      split: prod.splits option.splits if_splits)

theorem C4_delete_conflict_is_pending_witness:
  "vpcs_Get conflict [] ''v-1'' = (Some (a_vpc ''OK''), None)
   \<and> vpcs_Delete conflict [VpcsGet ''v-1''] ''v-1'' = Some (ErrUnexpectedResponseCode 409 ''Conflict'')
   \<and> waitForVpcDelete conflict ''v-1'' [] =
       Return ((Some (a_vpc ''OK''), ''ACTIVE'', None), [VpcsGet ''v-1'', VpcsDelete ''v-1''])
   \<and> poll (vpc_delete_stateConf conflict (with_id ''v-1'')) (Suc 0) [] =
       Return ((None, Some (TimeoutError ''DELETED'')), [VpcsGet ''v-1'', VpcsDelete ''v-1''])"
  using C4_delete_conflict_is_pending [of conflict "[]" "''v-1''" "Some (a_vpc ''OK'')" "''Conflict''"
      "with_id ''v-1''" 0 "''c-1''"]
  by (simp add: conflict_def quiet_def with_id_def blank_def vpc_delete_stateConf_def)

text \<open>
  C5. After the create call has succeeded, Create polls the remote status. When a poll
  within the timeout, reached through polls that all reported the pending status,
  observes the failure status (\<open>DOWN\<close> for a VPC, \<open>Unavailable\<close> for a cluster),
  Create returns an error at once: the request of that poll is the last one sent.
\<close>

theorem C5_create_failure_status:
  "(networkingV1Client meta (GetRegion meta d) = None
      \<and> vpcs_Create meta (h @ [NetworkingV1Client (GetRegion meta d)]) (vpc_createOpts d) = (Some v, None)
      \<and> after_pending (vpc_create_stateConf meta d (vpc_ID v)) k
           (h @ [NetworkingV1Client (GetRegion meta d), VpcsCreate (vpc_createOpts d)]) = Some hk
      \<and> k < TimeoutCreate d
      \<and> vpcs_Get meta hk (vpc_ID v) = (Some s, None) \<and> vpc_Status s = ''DOWN'' \<longrightarrow>
    resourceVirtualPrivateCloudV1Create meta d h =
      Return (Some (Errorf (''Error waiting for Vpc ('' @ vpc_ID v @ '') to become ACTIVE: '')
                (ErrorString (''Vpc status: '' @ [CHR 0x27] @ ''DOWN'' @ [CHR 0x27]))),
        SetId (vpc_ID v) d, hk @ [VpcsGet (vpc_ID v)]))
   \<and> (cceV3Client meta (GetRegion meta d) = None
      \<and> clusters_Create meta (h @ [CceV3Client (GetRegion meta d)]) (cce_createOpts meta d) = (Some c, None)
      \<and> after_pending (cce_create_stateConf meta d (md_Id (Metadata c))) j
           (h @ [CceV3Client (GetRegion meta d), ClustersCreate (cce_createOpts meta d)]) = Some hj
      \<and> j < TimeoutCreate d
      \<and> clusters_Get meta hj (md_Id (Metadata c)) = (Some t, None) \<and> Phase (cl_Status t) = ''Unavailable'' \<longrightarrow>
    resourceCCEClusterV3Create meta d h =
      Return (Some (Errorf ''Error creating HuaweiCloud CCE cluster: '' (UnexpectedStateError ''Unavailable'')),
        d, hj @ [ClustersGet (md_Id (Metadata c))]))"
proof (intro conjI impI)
  assume a: "networkingV1Client meta (GetRegion meta d) = None
      \<and> vpcs_Create meta (h @ [NetworkingV1Client (GetRegion meta d)]) (vpc_createOpts d) = (Some v, None)
      \<and> after_pending (vpc_create_stateConf meta d (vpc_ID v)) k
           (h @ [NetworkingV1Client (GetRegion meta d), VpcsCreate (vpc_createOpts d)]) = Some hk
      \<and> k < TimeoutCreate d
      \<and> vpcs_Get meta hk (vpc_ID v) = (Some s, None) \<and> vpc_Status s = ''DOWN''"
  then obtain n where n: "TimeoutCreate d = k + Suc n"
    using less_iff_Suc_add by auto
  from a have ap: "after_pending (vpc_create_stateConf meta d (vpc_ID v)) k
      (h @ [NetworkingV1Client (GetRegion meta d), VpcsCreate (vpc_createOpts d)]) = Some hk"
    by simp
  have "poll (vpc_create_stateConf meta d (vpc_ID v)) (TimeoutCreate d)
        (h @ [NetworkingV1Client (GetRegion meta d), VpcsCreate (vpc_createOpts d)]) =
      poll (vpc_create_stateConf meta d (vpc_ID v)) (Suc n) hk"
    unfolding n by (rule poll_after_pending [OF ap])
  also have "\<dots> = Return ((None, Some (ErrorString (''Vpc status: '' @ [CHR 0x27] @ ''DOWN'' @ [CHR 0x27]))),
        hk @ [VpcsGet (vpc_ID v)])"
    by (rule vpc_poll_down) (use a in auto)
  finally have p: "poll (vpc_create_stateConf meta d (vpc_ID v)) (TimeoutCreate d)
        (h @ [NetworkingV1Client (GetRegion meta d), VpcsCreate (vpc_createOpts d)]) =
      Return ((None, Some (ErrorString (''Vpc status: '' @ [CHR 0x27] @ ''DOWN'' @ [CHR 0x27]))),
        hk @ [VpcsGet (vpc_ID v)])" .
  from a p show "resourceVirtualPrivateCloudV1Create meta d h =
      Return (Some (Errorf (''Error waiting for Vpc ('' @ vpc_ID v @ '') to become ACTIVE: '')
                (ErrorString (''Vpc status: '' @ [CHR 0x27] @ ''DOWN'' @ [CHR 0x27]))),
        SetId (vpc_ID v) d, hk @ [VpcsGet (vpc_ID v)])"
    by (simp add: resourceVirtualPrivateCloudV1Create_def WaitForState_def)
next
  assume a: "cceV3Client meta (GetRegion meta d) = None
      \<and> clusters_Create meta (h @ [CceV3Client (GetRegion meta d)]) (cce_createOpts meta d) = (Some c, None)
      \<and> after_pending (cce_create_stateConf meta d (md_Id (Metadata c))) j
           (h @ [CceV3Client (GetRegion meta d), ClustersCreate (cce_createOpts meta d)]) = Some hj
      \<and> j < TimeoutCreate d
      \<and> clusters_Get meta hj (md_Id (Metadata c)) = (Some t, None) \<and> Phase (cl_Status t) = ''Unavailable''"
  then obtain n where n: "TimeoutCreate d = j + Suc n"
    using less_iff_Suc_add by auto
  from a have ap: "after_pending (cce_create_stateConf meta d (md_Id (Metadata c))) j
      (h @ [CceV3Client (GetRegion meta d), ClustersCreate (cce_createOpts meta d)]) = Some hj"
    by simp
  have "poll (cce_create_stateConf meta d (md_Id (Metadata c))) (TimeoutCreate d)
        (h @ [CceV3Client (GetRegion meta d), ClustersCreate (cce_createOpts meta d)]) =
      poll (cce_create_stateConf meta d (md_Id (Metadata c))) (Suc n) hj"
    unfolding n by (rule poll_after_pending [OF ap])
  also have "\<dots> = Return ((Some t, Some (UnexpectedStateError ''Unavailable'')),
        hj @ [ClustersGet (md_Id (Metadata c))])"
    by (rule cce_poll_unavailable) (use a in auto)
  finally have p: "poll (cce_create_stateConf meta d (md_Id (Metadata c))) (TimeoutCreate d)
        (h @ [CceV3Client (GetRegion meta d), ClustersCreate (cce_createOpts meta d)]) =
      Return ((Some t, Some (UnexpectedStateError ''Unavailable'')),
        hj @ [ClustersGet (md_Id (Metadata c))])" .
  from a p show "resourceCCEClusterV3Create meta d h =
      Return (Some (Errorf ''Error creating HuaweiCloud CCE cluster: '' (UnexpectedStateError ''Unavailable'')),
        d, hj @ [ClustersGet (md_Id (Metadata c))])"
    by (simp add: resourceCCEClusterV3Create_def WaitForState_def)
qed

theorem C5_create_failure_status_witness:
  "networkingV1Client failing_create (GetRegion failing_create blank) = None
   \<and> vpcs_Create failing_create [NetworkingV1Client ''region-1''] (vpc_createOpts blank) =
       (Some (a_vpc ''CREATING''), None)
   \<and> after_pending (vpc_create_stateConf failing_create blank ''v-1'') (Suc 0)
        [NetworkingV1Client ''region-1'', VpcsCreate (vpc_createOpts blank)] =
       Some [NetworkingV1Client ''region-1'', VpcsCreate (vpc_createOpts blank), VpcsGet ''v-1'']
   \<and> Suc 0 < TimeoutCreate blank
   \<and> vpcs_Get failing_create
        [NetworkingV1Client ''region-1'', VpcsCreate (vpc_createOpts blank), VpcsGet ''v-1''] ''v-1'' =
       (Some (a_vpc ''DOWN''), None)
   \<and> resourceVirtualPrivateCloudV1Create failing_create blank [] =
       Return (Some (ErrorString (''Error waiting for Vpc (v-1) to become ACTIVE: Vpc status: ''
                 @ [CHR 0x27] @ ''DOWN'' @ [CHR 0x27])),
         with_id ''v-1'',
         [NetworkingV1Client ''region-1'', VpcsCreate (vpc_createOpts blank), VpcsGet ''v-1'', VpcsGet ''v-1''])
   \<and> cceV3Client failing_create (GetRegion failing_create blank) = None
   \<and> clusters_Create failing_create [CceV3Client ''region-1''] (cce_createOpts failing_create blank) =
       (Some (a_cluster ''Creating''), None)
   \<and> after_pending (cce_create_stateConf failing_create blank ''c-1'') (Suc 0)
        [CceV3Client ''region-1'', ClustersCreate (cce_createOpts failing_create blank)] =
       Some [CceV3Client ''region-1'', ClustersCreate (cce_createOpts failing_create blank), ClustersGet ''c-1'']
   \<and> clusters_Get failing_create
        [CceV3Client ''region-1'', ClustersCreate (cce_createOpts failing_create blank), ClustersGet ''c-1'']
        ''c-1'' = (Some (a_cluster ''Unavailable''), None)
   \<and> resourceCCEClusterV3Create failing_create blank [] =
       Return (Some (ErrorString ''Error creating HuaweiCloud CCE cluster: unexpected state Unavailable''),
         blank,
         [CceV3Client ''region-1'', ClustersCreate (cce_createOpts failing_create blank),
          ClustersGet ''c-1'', ClustersGet ''c-1''])"
proof -
  have g: "GetRegion failing_create blank = ''region-1''"
    by (simp add: failing_create_def quiet_def)
  have v1: "networkingV1Client failing_create (GetRegion failing_create blank) = None"
    and c1: "cceV3Client failing_create (GetRegion failing_create blank) = None"
    by (simp_all add: failing_create_def quiet_def)
  have v2: "vpcs_Create failing_create [NetworkingV1Client ''region-1''] (vpc_createOpts blank) =
       (Some (a_vpc ''CREATING''), None)"
    and c2: "clusters_Create failing_create [CceV3Client ''region-1''] (cce_createOpts failing_create blank) =
       (Some (a_cluster ''Creating''), None)"
    by (simp_all add: failing_create_def quiet_def)
  have v3: "after_pending (vpc_create_stateConf failing_create blank ''v-1'') (Suc 0)
        [NetworkingV1Client ''region-1'', VpcsCreate (vpc_createOpts blank)] =
       Some [NetworkingV1Client ''region-1'', VpcsCreate (vpc_createOpts blank), VpcsGet ''v-1'']"
    by (simp add: vpc_create_stateConf_def waitForVpcActive_def failing_create_def quiet_def a_vpc_def)
  have c3: "after_pending (cce_create_stateConf failing_create blank ''c-1'') (Suc 0)
        [CceV3Client ''region-1'', ClustersCreate (cce_createOpts failing_create blank)] =
       Some [CceV3Client ''region-1'', ClustersCreate (cce_createOpts failing_create blank), ClustersGet ''c-1'']"
    by (simp add: cce_create_stateConf_def waitForCCEClusterActive_def failing_create_def quiet_def a_cluster_def)
  have t: "Suc 0 < TimeoutCreate blank"
    by (simp add: blank_def)
  have v4: "vpcs_Get failing_create
        [NetworkingV1Client ''region-1'', VpcsCreate (vpc_createOpts blank), VpcsGet ''v-1''] ''v-1'' =
       (Some (a_vpc ''DOWN''), None)"
    and c4: "clusters_Get failing_create
        [CceV3Client ''region-1'', ClustersCreate (cce_createOpts failing_create blank), ClustersGet ''c-1'']
        ''c-1'' = (Some (a_cluster ''Unavailable''), None)"
    by (simp_all add: failing_create_def quiet_def)
  have ids: "vpc_ID (a_vpc ''CREATING'') = ''v-1''" "vpc_Status (a_vpc ''DOWN'') = ''DOWN''"
    "md_Id (Metadata (a_cluster ''Creating'')) = ''c-1''"
    "Phase (cl_Status (a_cluster ''Unavailable'')) = ''Unavailable''"
    by (simp_all add: a_vpc_def a_cluster_def)
  show ?thesis
    using C5_create_failure_status [of failing_create blank "[]" "a_vpc ''CREATING''" "Suc 0"
        "[NetworkingV1Client ''region-1'', VpcsCreate (vpc_createOpts blank), VpcsGet ''v-1'']"
        "a_vpc ''DOWN''" "a_cluster ''Creating''" "Suc 0"
        "[CceV3Client ''region-1'', ClustersCreate (cce_createOpts failing_create blank), ClustersGet ''c-1'']"
        "a_cluster ''Unavailable''"]
      g v1 c1 v2 c2 v3 c3 t v4 c4 ids
    by (simp add: Errorf_def SetId_def with_id_def)
qed

section \<open>Update\<close>

text \<open>
  C6. The payload of an Update holds a field's value only if the framework reported
  that field changed, and then it is the field's value; no key that the payload holds
  is marked \<open>ForceNew\<close> in the schema. When the update request (and, for a VPC whose
  tags changed, the tag update) succeeds, the result of Update is the result of the
  resource's Read, run on the same record after the requests sent.
\<close>

theorem C6_update_payload:
  "(cceV3Client meta (GetRegion meta d) = None
      \<and> snd (clusters_Update meta (h @ [CceV3Client (GetRegion meta d)]) (d_Id d) (cce_updateOpts d)) = None \<longrightarrow>
    resourceCCEClusterV3Update meta d h =
      resourceCCEClusterV3Read meta d
        (h @ [CceV3Client (GetRegion meta d), ClustersUpdate (d_Id d) (cce_updateOpts d)]))
   \<and> us_Description (uo_Spec (cce_updateOpts d)) =
       (if HasChange d ''description'' then Get_string d ''description'' else [])
   \<and> (\<forall>key \<in> set (cce_update_keys (cce_updateOpts d)).
        HasChange d key \<and> map_option ForceNew (map_of resourceCCEClusterV3_Schema key) = Some False)
   \<and> (networkingV1Client meta (GetRegion meta d) = None
      \<and> snd (vpcs_Update meta (h @ [NetworkingV1Client (GetRegion meta d)]) (d_Id d) (vpc_updateOpts d)) = None
      \<and> \<not> HasChange d ''tags'' \<longrightarrow>
    resourceVirtualPrivateCloudV1Update meta d h =
      resourceVirtualPrivateCloudV1Read meta d
        (h @ [NetworkingV1Client (GetRegion meta d), VpcsUpdate (d_Id d) (vpc_updateOpts d)]))
   \<and> (networkingV1Client meta (GetRegion meta d) = None
      \<and> snd (vpcs_Update meta (h @ [NetworkingV1Client (GetRegion meta d)]) (d_Id d) (vpc_updateOpts d)) = None
      \<and> HasChange d ''tags''
      \<and> networkingV2Client meta (GetRegion meta d) = None
      \<and> UpdateResourceTags meta
           (h @ [NetworkingV1Client (GetRegion meta d), VpcsUpdate (d_Id d) (vpc_updateOpts d),
                 NetworkingV2Client (GetRegion meta d)]) d ''vpcs'' = None \<longrightarrow>
    resourceVirtualPrivateCloudV1Update meta d h =
      resourceVirtualPrivateCloudV1Read meta d
        (h @ [NetworkingV1Client (GetRegion meta d), VpcsUpdate (d_Id d) (vpc_updateOpts d),
              NetworkingV2Client (GetRegion meta d), TagsUpdate d ''vpcs'']))
   \<and> vuo_Name (vpc_updateOpts d) = (if HasChange d ''name'' then Get_string d ''name'' else [])
   \<and> vuo_CIDR (vpc_updateOpts d) = (if HasChange d ''cidr'' then Get_string d ''cidr'' else [])
   \<and> (\<forall>key \<in> set (vpc_update_keys (vpc_updateOpts d)).
        HasChange d key
        \<and> map_option ForceNew (map_of (resourceVirtualPrivateCloudV1_Schema tagsSchema) key) = Some False)"
proof -
  have cce: "cceV3Client meta (GetRegion meta d) = None
      \<and> snd (clusters_Update meta (h @ [CceV3Client (GetRegion meta d)]) (d_Id d) (cce_updateOpts d)) = None \<longrightarrow>
    resourceCCEClusterV3Update meta d h =
      resourceCCEClusterV3Read meta d
        (h @ [CceV3Client (GetRegion meta d), ClustersUpdate (d_Id d) (cce_updateOpts d)])"
    by (auto simp: resourceCCEClusterV3Update_def Let_def split: prod.splits)
  have cce_keys: "\<forall>key \<in> set (cce_update_keys (cce_updateOpts d)).
        HasChange d key \<and> map_option ForceNew (map_of resourceCCEClusterV3_Schema key) = Some False"
    by (simp add: cce_update_keys_def cce_updateOpts_def resourceCCEClusterV3_Schema_def field_def)
  have vpc1: "networkingV1Client meta (GetRegion meta d) = None
      \<and> snd (vpcs_Update meta (h @ [NetworkingV1Client (GetRegion meta d)]) (d_Id d) (vpc_updateOpts d)) = None
      \<and> \<not> HasChange d ''tags'' \<longrightarrow>
    resourceVirtualPrivateCloudV1Update meta d h =
      resourceVirtualPrivateCloudV1Read meta d
        (h @ [NetworkingV1Client (GetRegion meta d), VpcsUpdate (d_Id d) (vpc_updateOpts d)])"
    by (auto simp: resourceVirtualPrivateCloudV1Update_def Let_def split: prod.splits)
  have vpc2: "networkingV1Client meta (GetRegion meta d) = None
      \<and> snd (vpcs_Update meta (h @ [NetworkingV1Client (GetRegion meta d)]) (d_Id d) (vpc_updateOpts d)) = None
      \<and> HasChange d ''tags''
      \<and> networkingV2Client meta (GetRegion meta d) = None
      \<and> UpdateResourceTags meta
           (h @ [NetworkingV1Client (GetRegion meta d), VpcsUpdate (d_Id d) (vpc_updateOpts d),
                 NetworkingV2Client (GetRegion meta d)]) d ''vpcs'' = None \<longrightarrow>
    resourceVirtualPrivateCloudV1Update meta d h =
      resourceVirtualPrivateCloudV1Read meta d
        (h @ [NetworkingV1Client (GetRegion meta d), VpcsUpdate (d_Id d) (vpc_updateOpts d),
              NetworkingV2Client (GetRegion meta d), TagsUpdate d ''vpcs''])"
    by (auto simp: resourceVirtualPrivateCloudV1Update_def Let_def split: prod.splits)
  have vpc_keys: "\<forall>key \<in> set (vpc_update_keys (vpc_updateOpts d)).
        HasChange d key
        \<and> map_option ForceNew (map_of (resourceVirtualPrivateCloudV1_Schema tagsSchema) key) = Some False"
    by (auto simp: vpc_update_keys_def vpc_updateOpts_def resourceVirtualPrivateCloudV1_Schema_def field_def)
  have e1: "us_Description (uo_Spec (cce_updateOpts d)) =
       (if HasChange d ''description'' then Get_string d ''description'' else [])"
    by (simp add: cce_updateOpts_def)
  have e2: "vuo_Name (vpc_updateOpts d) = (if HasChange d ''name'' then Get_string d ''name'' else [])"
    by (simp add: vpc_updateOpts_def)
  have e3: "vuo_CIDR (vpc_updateOpts d) = (if HasChange d ''cidr'' then Get_string d ''cidr'' else [])"
    by (simp add: vpc_updateOpts_def)
  show ?thesis
    by (intro conjI cce e1 cce_keys vpc1 vpc2 e2 e3 vpc_keys)
qed

theorem C6_update_payload_witness:
  "cceV3Client accepts_update (GetRegion accepts_update renamed) = None
   \<and> snd (clusters_Update accepts_update [CceV3Client ''region-1''] ''r-1'' (cce_updateOpts renamed)) = None
   \<and> resourceCCEClusterV3Update accepts_update renamed [] =
       resourceCCEClusterV3Read accepts_update renamed
         [CceV3Client ''region-1'', ClustersUpdate ''r-1'' \<lparr>uo_Spec = \<lparr>us_Description = ''second''\<rparr>\<rparr>]
   \<and> cce_update_keys (cce_updateOpts renamed) = [''description'']
   \<and> HasChange renamed ''description''
   \<and> map_option ForceNew (map_of resourceCCEClusterV3_Schema ''description'') = Some False
   \<and> networkingV1Client accepts_update (GetRegion accepts_update renamed) = None
   \<and> snd (vpcs_Update accepts_update [NetworkingV1Client ''region-1''] ''r-1'' (vpc_updateOpts renamed)) = None
   \<and> \<not> HasChange renamed ''tags''
   \<and> resourceVirtualPrivateCloudV1Update accepts_update renamed [] =
       resourceVirtualPrivateCloudV1Read accepts_update renamed
         [NetworkingV1Client ''region-1'', VpcsUpdate ''r-1'' \<lparr>vuo_Name = ''blue'', vuo_CIDR = []\<rparr>]
   \<and> vpc_update_keys (vpc_updateOpts renamed) = [''name'']
   \<and> HasChange renamed ''name''
   \<and> map_option ForceNew (map_of (resourceVirtualPrivateCloudV1_Schema (field TypeMap)) ''name'') = Some False"
proof -
  have opts: "cce_updateOpts renamed = \<lparr>uo_Spec = \<lparr>us_Description = ''second''\<rparr>\<rparr>"
    "vpc_updateOpts renamed = \<lparr>vuo_Name = ''blue'', vuo_CIDR = []\<rparr>"
    by (simp_all add: cce_updateOpts_def vpc_updateOpts_def renamed_def Get_string_def)
  have keys: "cce_update_keys \<lparr>uo_Spec = \<lparr>us_Description = ''second''\<rparr>\<rparr> = [''description'']"
    "vpc_update_keys \<lparr>vuo_Name = ''blue'', vuo_CIDR = []\<rparr> = [''name'']"
    by (simp_all add: cce_update_keys_def vpc_update_keys_def)
  have env: "GetRegion accepts_update renamed = ''region-1''" "d_Id renamed = ''r-1''"
    "cceV3Client accepts_update ''region-1'' = None" "networkingV1Client accepts_update ''region-1'' = None"
    "\<And>h o1. clusters_Update accepts_update h ''r-1'' o1 = (Some (a_cluster ''Available''), None)"
    "\<And>h o2. vpcs_Update accepts_update h ''r-1'' o2 = (Some (a_vpc ''OK''), None)"
    "\<not> HasChange renamed ''tags''" "\<not> HasChange renamed ''cidr''"
    "HasChange renamed ''name''" "HasChange renamed ''description''"
    "Get_string renamed ''name'' = ''blue''" "Get_string renamed ''description'' = ''second''"
    by (simp_all add: accepts_update_def quiet_def renamed_def Get_string_def)
  show ?thesis
    using C6_update_payload [of accepts_update renamed "[]" "field TypeMap"]
    by (simp add: opts keys env)
qed

section \<open>Identity\<close>

text \<open>
  C9. The cluster's Create sets the identity only after the wait for \<open>Available\<close>
  has succeeded. Here the create call succeeds and the first poll observes
  \<open>Unavailable\<close>: Create returns an error and the record still has no identity,
  although the cloud holds the cluster \<open>c-1\<close>. The VPC's Create, in the same
  situation, has set the identity before it waits.
\<close>

theorem C9_cluster_identity_lost:
  "clusters_Create never_ready [CceV3Client ''region-1''] (cce_createOpts never_ready blank) =
     (Some (a_cluster ''Creating''), None)
   \<and> md_Id (Metadata (a_cluster ''Creating'')) = ''c-1''
   \<and> resourceCCEClusterV3Create never_ready blank [] =
       Return (Some (ErrorString ''Error creating HuaweiCloud CCE cluster: unexpected state Unavailable''),
         blank,
         [CceV3Client ''region-1'', ClustersCreate (cce_createOpts never_ready blank), ClustersGet ''c-1''])
   \<and> d_Id blank = []
   \<and> vpcs_Create never_ready [NetworkingV1Client ''region-1''] (vpc_createOpts blank) =
       (Some (a_vpc ''CREATING''), None)
   \<and> resourceVirtualPrivateCloudV1Create never_ready blank [] =
       Return (Some (ErrorString (''Error waiting for Vpc (v-1) to become ACTIVE: Vpc status: ''
                 @ [CHR 0x27] @ ''DOWN'' @ [CHR 0x27])),
         with_id ''v-1'',
         [NetworkingV1Client ''region-1'', VpcsCreate (vpc_createOpts blank), VpcsGet ''v-1''])"
  by (simp add: never_ready_def quiet_def blank_def with_id_def a_cluster_def a_vpc_def
      resourceCCEClusterV3Create_def resourceVirtualPrivateCloudV1Create_def WaitForState_def
      cce_create_stateConf_def vpc_create_stateConf_def waitForCCEClusterActive_def
      waitForVpcActive_def SetId_def Errorf_def eval_nat_numeral)



section \<open>Delete\<close>

text \<open>
  C7, as the claim states it, fails for the VPC: its Delete sends no removal request
  before the polling loop. In this run the first request after the client is a get,
  and the removal request is sent twice, inside the loop, before a get finds the VPC
  gone and Delete returns without error.
\<close>

theorem C7_removal_inside_the_loop:
  "resourceVirtualPrivateCloudV1Delete slow_removal (with_id ''v-1'') [] =
     Return (None, with_id [],
       [NetworkingV1Client ''region-1'', VpcsGet ''v-1'', VpcsDelete ''v-1'',
        VpcsGet ''v-1'', VpcsDelete ''v-1'', VpcsGet ''v-1''])"
  by (rule slow_removal_vpc_run)

text \<open>
  C7, amended. The cluster's Delete first sends one removal request and then polls with
  get requests only; it returns without error, the identity cleared, exactly when the
  removal succeeded and a poll within the timeout, reached through polls that all
  reported a pending status, had its get answered with a not-found error. The VPC's
  Delete enters the polling loop at once; each poll sends a get and, when the get
  succeeds, a removal request; Delete returns without error, the identity cleared,
  exactly when a poll within the timeout, reached through pending polls, had its get
  or its removal request answered with a not-found error.
\<close>

theorem C7_delete_polling:
  "(cceV3Client meta (GetRegion meta d) = None \<longrightarrow>
      (resourceCCEClusterV3Delete meta d h = Return (None, d', log) \<longleftrightarrow>
         clusters_Delete meta (h @ [CceV3Client (GetRegion meta d)]) (d_Id d) = None
         \<and> d' = SetId [] d
         \<and> (\<exists>k<TimeoutDelete d. \<exists>hk e.
              after_pending (cce_delete_stateConf meta d) k
                (h @ [CceV3Client (GetRegion meta d), ClustersDelete (d_Id d)]) = Some hk
              \<and> snd (clusters_Get meta hk (d_Id d)) = Some e \<and> is_ErrDefault404 e
              \<and> log = hk @ [ClustersGet (d_Id d)]))
      \<and> (\<forall>err d'' log'. resourceCCEClusterV3Delete meta d h = Return (err, d'', log') \<longrightarrow>
           (\<exists>k. log' = h @ [CceV3Client (GetRegion meta d), ClustersDelete (d_Id d)]
                          @ replicate k (ClustersGet (d_Id d)))))
   \<and> (networkingV1Client meta (GetRegion meta d) = None \<longrightarrow>
      (resourceVirtualPrivateCloudV1Delete meta d h = Return (None, d', log) \<longleftrightarrow>
         d' = SetId [] d
         \<and> (\<exists>k<TimeoutDelete d. \<exists>hk.
              after_pending (vpc_delete_stateConf meta d) k
                (h @ [NetworkingV1Client (GetRegion meta d)]) = Some hk
              \<and> ((\<exists>e. snd (vpcs_Get meta hk (d_Id d)) = Some e \<and> is_ErrDefault404 e
                     \<and> log = hk @ [VpcsGet (d_Id d)])
                 \<or> (snd (vpcs_Get meta hk (d_Id d)) = None
                     \<and> (\<exists>e. vpcs_Delete meta (hk @ [VpcsGet (d_Id d)]) (d_Id d) = Some e
                            \<and> is_ErrDefault404 e)
                     \<and> log = hk @ [VpcsGet (d_Id d), VpcsDelete (d_Id d)])))))
   \<and> (\<exists>x. waitForVpcDelete meta vpcId hp =
          Return (x, hp @ (if snd (vpcs_Get meta hp vpcId) = None
                           then [VpcsGet vpcId, VpcsDelete vpcId] else [VpcsGet vpcId])))"
proof (intro conjI impI allI)
  assume c: "cceV3Client meta (GetRegion meta d) = None"
  have "resourceCCEClusterV3Delete meta d h = Return (None, d', log) \<longleftrightarrow>
      clusters_Delete meta (h @ [CceV3Client (GetRegion meta d)]) (d_Id d) = None
      \<and> d' = SetId [] d
      \<and> (\<exists>res. poll (cce_delete_stateConf meta d) (TimeoutDelete d)
            (h @ [CceV3Client (GetRegion meta d), ClustersDelete (d_Id d)]) = Return ((res, None), log))"
    using c
    by (auto simp: resourceCCEClusterV3Delete_def WaitForState_def Let_def
        split: option.splits exec.splits prod.splits)
  then show "resourceCCEClusterV3Delete meta d h = Return (None, d', log) \<longleftrightarrow>
         clusters_Delete meta (h @ [CceV3Client (GetRegion meta d)]) (d_Id d) = None
         \<and> d' = SetId [] d
         \<and> (\<exists>k<TimeoutDelete d. \<exists>hk e.
              after_pending (cce_delete_stateConf meta d) k
                (h @ [CceV3Client (GetRegion meta d), ClustersDelete (d_Id d)]) = Some hk
              \<and> snd (clusters_Get meta hk (d_Id d)) = Some e \<and> is_ErrDefault404 e
              \<and> log = hk @ [ClustersGet (d_Id d)])"
    unfolding poll_success_ex cce_delete_refresh_target by blast
next
  fix err d'' log'
  assume c: "cceV3Client meta (GetRegion meta d) = None"
    and r: "resourceCCEClusterV3Delete meta d h = Return (err, d'', log')"
  show "\<exists>k. log' = h @ [CceV3Client (GetRegion meta d), ClustersDelete (d_Id d)]
                          @ replicate k (ClustersGet (d_Id d))"
  proof (cases "clusters_Delete meta (h @ [CceV3Client (GetRegion meta d)]) (d_Id d)")
    case (Some e)
    with c r have "log' = h @ [CceV3Client (GetRegion meta d), ClustersDelete (d_Id d)]"
      by (auto simp: resourceCCEClusterV3Delete_def Let_def)
    then show ?thesis
      by (intro exI [of _ 0]) simp
  next
    case None
    with c r obtain x where "poll (cce_delete_stateConf meta d) (TimeoutDelete d)
        (h @ [CceV3Client (GetRegion meta d), ClustersDelete (d_Id d)]) = Return (x, log')"
      by (auto simp: resourceCCEClusterV3Delete_def WaitForState_def Let_def
          split: option.splits exec.splits prod.splits)
    from cce_delete_poll_log [OF this] show ?thesis
      by simp
  qed
next
  assume c: "networkingV1Client meta (GetRegion meta d) = None"
  have "resourceVirtualPrivateCloudV1Delete meta d h = Return (None, d', log) \<longleftrightarrow>
      d' = SetId [] d
      \<and> (\<exists>res. poll (vpc_delete_stateConf meta d) (TimeoutDelete d)
            (h @ [NetworkingV1Client (GetRegion meta d)]) = Return ((res, None), log))"
    using c
    by (auto simp: resourceVirtualPrivateCloudV1Delete_def WaitForState_def Let_def
        split: option.splits exec.splits prod.splits)
  then show "resourceVirtualPrivateCloudV1Delete meta d h = Return (None, d', log) \<longleftrightarrow>
         d' = SetId [] d
         \<and> (\<exists>k<TimeoutDelete d. \<exists>hk.
              after_pending (vpc_delete_stateConf meta d) k
                (h @ [NetworkingV1Client (GetRegion meta d)]) = Some hk
              \<and> ((\<exists>e. snd (vpcs_Get meta hk (d_Id d)) = Some e \<and> is_ErrDefault404 e
                     \<and> log = hk @ [VpcsGet (d_Id d)])
                 \<or> (snd (vpcs_Get meta hk (d_Id d)) = None
                     \<and> (\<exists>e. vpcs_Delete meta (hk @ [VpcsGet (d_Id d)]) (d_Id d) = Some e
                            \<and> is_ErrDefault404 e)
                     \<and> log = hk @ [VpcsGet (d_Id d), VpcsDelete (d_Id d)])))"
    unfolding poll_success_ex vpc_delete_refresh_target by blast
next
  show "\<exists>x. waitForVpcDelete meta vpcId hp =
          Return (x, hp @ (if snd (vpcs_Get meta hp vpcId) = None
                           then [VpcsGet vpcId, VpcsDelete vpcId] else [VpcsGet vpcId]))"
    by (auto simp: waitForVpcDelete_def split: prod.splits option.splits)
qed

theorem C7_delete_polling_witness:
  "cceV3Client slow_removal (GetRegion slow_removal (with_id ''c-1'')) = None
   \<and> resourceCCEClusterV3Delete slow_removal (with_id ''c-1'') [] =
       Return (None, with_id [],
         [CceV3Client ''region-1'', ClustersDelete ''c-1'', ClustersGet ''c-1'', ClustersGet ''c-1''])
   \<and> clusters_Delete slow_removal [CceV3Client ''region-1''] ''c-1'' = None
   \<and> (\<exists>k<TimeoutDelete (with_id ''c-1''). \<exists>hk e.
        after_pending (cce_delete_stateConf slow_removal (with_id ''c-1'')) k
          [CceV3Client ''region-1'', ClustersDelete ''c-1''] = Some hk
        \<and> snd (clusters_Get slow_removal hk ''c-1'') = Some e \<and> is_ErrDefault404 e
        \<and> [CceV3Client ''region-1'', ClustersDelete ''c-1'', ClustersGet ''c-1'', ClustersGet ''c-1'']
            = hk @ [ClustersGet ''c-1''])
   \<and> networkingV1Client slow_removal (GetRegion slow_removal (with_id ''v-1'')) = None
   \<and> (\<exists>k<TimeoutDelete (with_id ''v-1''). \<exists>hk.
        after_pending (vpc_delete_stateConf slow_removal (with_id ''v-1'')) k
          [NetworkingV1Client ''region-1''] = Some hk
        \<and> ((\<exists>e. snd (vpcs_Get slow_removal hk ''v-1'') = Some e \<and> is_ErrDefault404 e
               \<and> [NetworkingV1Client ''region-1'', VpcsGet ''v-1'', VpcsDelete ''v-1'',
                   VpcsGet ''v-1'', VpcsDelete ''v-1'', VpcsGet ''v-1''] = hk @ [VpcsGet ''v-1''])
           \<or> (snd (vpcs_Get slow_removal hk ''v-1'') = None
               \<and> (\<exists>e. vpcs_Delete slow_removal (hk @ [VpcsGet ''v-1'']) ''v-1'' = Some e
                      \<and> is_ErrDefault404 e)
               \<and> [NetworkingV1Client ''region-1'', VpcsGet ''v-1'', VpcsDelete ''v-1'',
                   VpcsGet ''v-1'', VpcsDelete ''v-1'', VpcsGet ''v-1'']
                   = hk @ [VpcsGet ''v-1'', VpcsDelete ''v-1''])))"
proof -
  have env: "GetRegion slow_removal (with_id ''c-1'') = ''region-1''"
    "GetRegion slow_removal (with_id ''v-1'') = ''region-1''"
    "cceV3Client slow_removal ''region-1'' = None"
    "networkingV1Client slow_removal ''region-1'' = None"
    "d_Id (with_id ''c-1'') = ''c-1''" "d_Id (with_id ''v-1'') = ''v-1''"
    by (simp_all add: slow_removal_def quiet_def with_id_def blank_def)
  note cce = C7_delete_polling [of slow_removal "with_id ''c-1''" "[]" "with_id []"
      "[CceV3Client ''region-1'', ClustersDelete ''c-1'', ClustersGet ''c-1'', ClustersGet ''c-1'']"
      "''v-1''" "[]"]
  note vpc = C7_delete_polling [of slow_removal "with_id ''v-1''" "[]" "with_id []"
      "[NetworkingV1Client ''region-1'', VpcsGet ''v-1'', VpcsDelete ''v-1'',
        VpcsGet ''v-1'', VpcsDelete ''v-1'', VpcsGet ''v-1'']"
      "''v-1''" "[]"]
  from cce slow_removal_cce_run have 1:
    "clusters_Delete slow_removal [CceV3Client ''region-1''] ''c-1'' = None
     \<and> (\<exists>k<TimeoutDelete (with_id ''c-1''). \<exists>hk e.
        after_pending (cce_delete_stateConf slow_removal (with_id ''c-1'')) k
          [CceV3Client ''region-1'', ClustersDelete ''c-1''] = Some hk
        \<and> snd (clusters_Get slow_removal hk ''c-1'') = Some e \<and> is_ErrDefault404 e
        \<and> [CceV3Client ''region-1'', ClustersDelete ''c-1'', ClustersGet ''c-1'', ClustersGet ''c-1'']
            = hk @ [ClustersGet ''c-1''])"
    by (simp add: env)
  from vpc slow_removal_vpc_run have 2:
    "\<exists>k<TimeoutDelete (with_id ''v-1''). \<exists>hk.
        after_pending (vpc_delete_stateConf slow_removal (with_id ''v-1'')) k
          [NetworkingV1Client ''region-1''] = Some hk
        \<and> ((\<exists>e. snd (vpcs_Get slow_removal hk ''v-1'') = Some e \<and> is_ErrDefault404 e
               \<and> [NetworkingV1Client ''region-1'', VpcsGet ''v-1'', VpcsDelete ''v-1'',
                   VpcsGet ''v-1'', VpcsDelete ''v-1'', VpcsGet ''v-1''] = hk @ [VpcsGet ''v-1''])
           \<or> (snd (vpcs_Get slow_removal hk ''v-1'') = None
               \<and> (\<exists>e. vpcs_Delete slow_removal (hk @ [VpcsGet ''v-1'']) ''v-1'' = Some e
                      \<and> is_ErrDefault404 e)
               \<and> [NetworkingV1Client ''region-1'', VpcsGet ''v-1'', VpcsDelete ''v-1'',
                   VpcsGet ''v-1'', VpcsDelete ''v-1'', VpcsGet ''v-1'']
                   = hk @ [VpcsGet ''v-1'', VpcsDelete ''v-1'']))"
    by (simp add: env)
  from 1 2 slow_removal_cce_run show ?thesis
    by (simp add: env)
qed

section \<open>Upstream errors\<close>

text \<open>
  C8, as the claim states it, fails: in this run of the VPC's Delete the removal request
  is answered with a 409 and a later get with a 404, neither during a Read, and Delete
  returns no error.
\<close>

theorem C8_conflict_is_suppressed:
  "resourceVirtualPrivateCloudV1Delete slow_removal (with_id ''v-1'') [] =
     Return (None, with_id [],
       [NetworkingV1Client ''region-1'', VpcsGet ''v-1'', VpcsDelete ''v-1'',
        VpcsGet ''v-1'', VpcsDelete ''v-1'', VpcsGet ''v-1''])
   \<and> upstream_errors slow_removal []
       [NetworkingV1Client ''region-1'', VpcsGet ''v-1'', VpcsDelete ''v-1'',
        VpcsGet ''v-1'', VpcsDelete ''v-1'', VpcsGet ''v-1''] =
     [(VpcsDelete ''v-1'', ErrUnexpectedResponseCode 409 ''Conflict''),
      (VpcsGet ''v-1'', ErrDefault404 ''Resource not found'')]"
proof -
  have "upstream_errors slow_removal []
       [NetworkingV1Client ''region-1'', VpcsGet ''v-1'', VpcsDelete ''v-1'',
        VpcsGet ''v-1'', VpcsDelete ''v-1'', VpcsGet ''v-1''] =
     [(VpcsDelete ''v-1'', ErrUnexpectedResponseCode 409 ''Conflict''),
      (VpcsGet ''v-1'', ErrDefault404 ''Resource not found'')]"
    by (simp add: slow_removal_def quiet_def)
  with slow_removal_vpc_run show ?thesis
    by simp
qed

text \<open>
  C8, amended. In every run of a lifecycle operation that returns, every request
  answered with an error has that error returned to the caller, a prefix put before
  its message (the data source returns the error of its get as it is), unless it is a
  not-found error answered to the get or to the tags fetch of a Read, a not-found
  error answered to the get in the polling loop of a Delete or, in the VPC's Delete,
  a not-found error or a 409 answered to the removal request. In the polling loop of a
  Create every error of the get, a not-found error included, is returned. Nothing is
  said about an error of the certificate fetch in the cluster's Read, nor about any
  other error of the get in the polling loop of the cluster's Delete.
\<close>

theorem C8_upstream_errors:
  "accounts meta ds_returned h (dataSourceDmsMaintainWindowV1Read meta d h)
   \<and> accounts meta (returned_or cce_read_tolerated) h (resourceCCEClusterV3Create meta d h)
   \<and> accounts meta (returned_or cce_read_tolerated) h (resourceCCEClusterV3Read meta d h)
   \<and> accounts meta (returned_or cce_read_tolerated) h (resourceCCEClusterV3Update meta d h)
   \<and> accounts meta (returned_or cce_delete_tolerated) h (resourceCCEClusterV3Delete meta d h)
   \<and> accounts meta (returned_or not_found_on_get) h (resourceVirtualPrivateCloudV1Create meta d h)
   \<and> accounts meta (returned_or not_found_on_get) h (resourceVirtualPrivateCloudV1Read meta d h)
   \<and> accounts meta (returned_or not_found_on_get) h (resourceVirtualPrivateCloudV1Update meta d h)
   \<and> accounts meta (returned_or vpc_delete_tolerated) h (resourceVirtualPrivateCloudV1Delete meta d h)
   \<and> (cceV3Client meta (GetRegion meta d) = None
      \<and> clusters_Create meta (h @ [CceV3Client (GetRegion meta d)]) (cce_createOpts meta d) = (Some c, None)
      \<and> after_pending (cce_create_stateConf meta d (md_Id (Metadata c))) k
           (h @ [CceV3Client (GetRegion meta d), ClustersCreate (cce_createOpts meta d)]) = Some hk
      \<and> k < TimeoutCreate d
      \<and> snd (clusters_Get meta hk (md_Id (Metadata c))) = Some e \<longrightarrow>
    resourceCCEClusterV3Create meta d h =
      Return (Some (Errorf ''Error creating HuaweiCloud CCE cluster: '' e), d,
        hk @ [ClustersGet (md_Id (Metadata c))]))
   \<and> (networkingV1Client meta (GetRegion meta d) = None
      \<and> vpcs_Create meta (h @ [NetworkingV1Client (GetRegion meta d)]) (vpc_createOpts d) = (Some v, None)
      \<and> after_pending (vpc_create_stateConf meta d (vpc_ID v)) j
           (h @ [NetworkingV1Client (GetRegion meta d), VpcsCreate (vpc_createOpts d)]) = Some hj
      \<and> j < TimeoutCreate d
      \<and> snd (vpcs_Get meta hj (vpc_ID v)) = Some e' \<longrightarrow>
    resourceVirtualPrivateCloudV1Create meta d h =
      Return (Some (Errorf (''Error waiting for Vpc ('' @ vpc_ID v @ '') to become ACTIVE: '') e'),
        SetId (vpc_ID v) d, hj @ [VpcsGet (vpc_ID v)]))"
proof -
  have cce: "cceV3Client meta (GetRegion meta d) = None
      \<and> clusters_Create meta (h @ [CceV3Client (GetRegion meta d)]) (cce_createOpts meta d) = (Some c, None)
      \<and> after_pending (cce_create_stateConf meta d (md_Id (Metadata c))) k
           (h @ [CceV3Client (GetRegion meta d), ClustersCreate (cce_createOpts meta d)]) = Some hk
      \<and> k < TimeoutCreate d
      \<and> snd (clusters_Get meta hk (md_Id (Metadata c))) = Some e \<longrightarrow>
    resourceCCEClusterV3Create meta d h =
      Return (Some (Errorf ''Error creating HuaweiCloud CCE cluster: '' e), d,
        hk @ [ClustersGet (md_Id (Metadata c))])"
    using cce_create_poll_get_error by blast
  have vpc: "networkingV1Client meta (GetRegion meta d) = None
      \<and> vpcs_Create meta (h @ [NetworkingV1Client (GetRegion meta d)]) (vpc_createOpts d) = (Some v, None)
      \<and> after_pending (vpc_create_stateConf meta d (vpc_ID v)) j
           (h @ [NetworkingV1Client (GetRegion meta d), VpcsCreate (vpc_createOpts d)]) = Some hj
      \<and> j < TimeoutCreate d
      \<and> snd (vpcs_Get meta hj (vpc_ID v)) = Some e' \<longrightarrow>
    resourceVirtualPrivateCloudV1Create meta d h =
      Return (Some (Errorf (''Error waiting for Vpc ('' @ vpc_ID v @ '') to become ACTIVE: '') e'),
        SetId (vpc_ID v) d, hj @ [VpcsGet (vpc_ID v)])"
    using vpc_create_poll_get_error by blast
  show ?thesis
    by (intro conjI ds_read_accounts cce_create_accounts cce_read_accounts cce_update_accounts
        cce_delete_accounts vpc_create_accounts vpc_read_accounts vpc_update_accounts
        vpc_delete_accounts cce vpc)
qed

theorem C8_upstream_errors_witness:
  "resourceVirtualPrivateCloudV1Read quiet (with_id ''v-1'') [] =
     Return (Some (ErrorString ''Error retrieving Huaweicloud Vpc: unreachable''), with_id ''v-1'',
       [NetworkingV1Client ''region-1'', VpcsGet ''v-1''])
   \<and> upstream_errors quiet [] [NetworkingV1Client ''region-1'', VpcsGet ''v-1''] =
       [(VpcsGet ''v-1'', ErrOther ''unreachable'')]
   \<and> wrapped (ErrOther ''unreachable'') (Some (ErrorString ''Error retrieving Huaweicloud Vpc: unreachable''))
   \<and> cceV3Client vanishing (GetRegion vanishing blank) = None
   \<and> clusters_Create vanishing [CceV3Client ''region-1''] (cce_createOpts vanishing blank) =
       (Some (a_cluster ''Creating''), None)
   \<and> after_pending (cce_create_stateConf vanishing blank ''c-1'') 0
        [CceV3Client ''region-1'', ClustersCreate (cce_createOpts vanishing blank)] =
       Some [CceV3Client ''region-1'', ClustersCreate (cce_createOpts vanishing blank)]
   \<and> 0 < TimeoutCreate blank
   \<and> snd (clusters_Get vanishing [CceV3Client ''region-1'', ClustersCreate (cce_createOpts vanishing blank)]
        ''c-1'') = Some (ErrDefault404 ''Resource not found'')
   \<and> resourceCCEClusterV3Create vanishing blank [] =
       Return (Some (ErrorString ''Error creating HuaweiCloud CCE cluster: Resource not found''), blank,
         [CceV3Client ''region-1'', ClustersCreate (cce_createOpts vanishing blank), ClustersGet ''c-1''])
   \<and> networkingV1Client vanishing (GetRegion vanishing blank) = None
   \<and> vpcs_Create vanishing [NetworkingV1Client ''region-1''] (vpc_createOpts blank) =
       (Some (a_vpc ''CREATING''), None)
   \<and> after_pending (vpc_create_stateConf vanishing blank ''v-1'') 0
        [NetworkingV1Client ''region-1'', VpcsCreate (vpc_createOpts blank)] =
       Some [NetworkingV1Client ''region-1'', VpcsCreate (vpc_createOpts blank)]
   \<and> snd (vpcs_Get vanishing [NetworkingV1Client ''region-1'', VpcsCreate (vpc_createOpts blank)] ''v-1'') =
       Some (ErrDefault404 ''Resource not found'')
   \<and> resourceVirtualPrivateCloudV1Create vanishing blank [] =
       Return (Some (ErrorString ''Error waiting for Vpc (v-1) to become ACTIVE: Resource not found''),
         with_id ''v-1'',
         [NetworkingV1Client ''region-1'', VpcsCreate (vpc_createOpts blank), VpcsGet ''v-1''])"
proof -
  have ue: "upstream_errors quiet [] [NetworkingV1Client ''region-1'', VpcsGet ''v-1''] =
       [(VpcsGet ''v-1'', ErrOther ''unreachable'')]"
    by (simp add: quiet_def)
  note thm1 = C8_upstream_errors [of quiet "[]" "with_id ''v-1''"]
  note thm2 = C8_upstream_errors [of vanishing "[]" blank "a_cluster ''Creating''" 0
      "[CceV3Client ''region-1'', ClustersCreate (cce_createOpts vanishing blank)]"
      "ErrDefault404 ''Resource not found''" "a_vpc ''CREATING''" 0
      "[NetworkingV1Client ''region-1'', VpcsCreate (vpc_createOpts blank)]"
      "ErrDefault404 ''Resource not found''"]
  from thm1 have "accounts quiet (returned_or not_found_on_get) []
      (resourceVirtualPrivateCloudV1Read quiet (with_id ''v-1'') [])"
    by simp
  then have w: "wrapped (ErrOther ''unreachable'')
      (Some (ErrorString ''Error retrieving Huaweicloud Vpc: unreachable''))"
    unfolding quiet_vpc_read by (simp add: accounts_def returned_or_def quiet_def)
  have env: "GetRegion vanishing blank = ''region-1''"
    "cceV3Client vanishing ''region-1'' = None" "networkingV1Client vanishing ''region-1'' = None"
    "\<And>h opts. clusters_Create vanishing h opts = (Some (a_cluster ''Creating''), None)"
    "\<And>h opts. vpcs_Create vanishing h opts = (Some (a_vpc ''CREATING''), None)"
    "\<And>h i. clusters_Get vanishing h i = (None, Some (ErrDefault404 ''Resource not found''))"
    "\<And>h i. vpcs_Get vanishing h i = (None, Some (ErrDefault404 ''Resource not found''))"
    "md_Id (Metadata (a_cluster ''Creating'')) = ''c-1''" "vpc_ID (a_vpc ''CREATING'') = ''v-1''"
    "0 < TimeoutCreate blank"
    by (simp_all add: vanishing_def quiet_def a_cluster_def a_vpc_def blank_def)
  from thm2 have "resourceCCEClusterV3Create vanishing blank [] =
       Return (Some (ErrorString ''Error creating HuaweiCloud CCE cluster: Resource not found''), blank,
         [CceV3Client ''region-1'', ClustersCreate (cce_createOpts vanishing blank), ClustersGet ''c-1''])"
    and "resourceVirtualPrivateCloudV1Create vanishing blank [] =
       Return (Some (ErrorString ''Error waiting for Vpc (v-1) to become ACTIVE: Resource not found''),
         with_id ''v-1'',
         [NetworkingV1Client ''region-1'', VpcsCreate (vpc_createOpts blank), VpcsGet ''v-1''])"
    by (simp_all add: env Errorf_def SetId_def with_id_def)
  with quiet_vpc_read ue w show ?thesis
    by (simp add: env)
qed

end
